theory Spec2Isabelle
  imports Main
begin

section \<open>The KOOK channel extension: data model\<close>

text \<open>
  The development follows \<^verbatim>\<open>extensions/kook/src/bot.ts\<close> (the message handler and
  its policy gate), \<^verbatim>\<open>extensions/kook/src/kook/probe.ts\<close> (the gateway session:
  \<^verbatim>\<open>fetchBotId\<close>, \<^verbatim>\<open>connectWebSocket\<close>) and \<^verbatim>\<open>types.ts\<close>.
  JavaScript values are modelled as follows: an optional field is an \<open>option\<close>, a
  string is a \<open>string\<close>, an integral number is an \<open>int\<close> or a \<open>nat\<close>, a
  \<^verbatim>\<open>Map\<close> or a keyed object is a map \<open>string \<rightharpoonup> 'v\<close>.
\<close>

subsection \<open>Events and frames (types.ts)\<close>

datatype ChannelType = GROUP | PERSON | BROADCAST

text \<open>
  The part of \<^verbatim>\<open>KookEventData.extra\<close> that the handler reads:
  \<^verbatim>\<open>guild_id\<close>, \<^verbatim>\<open>mention\<close>, \<^verbatim>\<open>author.username\<close>,
  \<^verbatim>\<open>kmarkdown.raw_content\<close> and \<^verbatim>\<open>quote.content\<close>.
\<close>

record EventExtra =
  guild_id :: "string option"
  mention :: "string list option"
  author_username :: "string option"
  kmarkdown_raw_content :: "string option"
  quote_content :: "string option"

text \<open>\<open>msg_type\<close> is the wire field \<^verbatim>\<open>type\<close> (1 text, 9 kmarkdown, 10 card, 255 system).\<close>

record KookEventData =
  channel_type :: ChannelType
  msg_type :: int
  target_id :: string
  author_id :: string
  content :: string
  msg_id :: string
  extra :: EventExtra

text \<open>
  The payload \<^verbatim>\<open>d\<close> of a frame is one JSON object: a Hello or ResumeAck frame is read
  through its key \<^verbatim>\<open>session_id\<close>, an Event frame through the cast to
  \<^verbatim>\<open>KookEventData\<close>.
\<close>

record FrameData =
  session_id :: "string option"
  event_data :: KookEventData

text \<open>\<^verbatim>\<open>KookSignalFrame = { s, d, sn? }\<close>.\<close>

record KookSignalFrame =
  frame_s :: int
  frame_d :: FrameData
  frame_sn :: "int option"

subsection \<open>Configuration (the resolved account view)\<close>

text \<open>
  An allow-list entry is a string or a number (\<^verbatim>\<open>Array<string | number>\<close>); the
  code compares \<^verbatim>\<open>String(entry)\<close>. Numeric entries are integers, which JavaScript
  prints in plain decimal.
\<close>

datatype AllowEntry = EStr string | ENum int

fun nat_digits :: "nat \<Rightarrow> string" where
  "nat_digits n =
     (if n < 10 then [''0123456789'' ! n]
      else nat_digits (n div 10) @ [''0123456789'' ! (n mod 10)])"

declare nat_digits.simps [simp del]

fun String_js :: "AllowEntry \<Rightarrow> string" where
  "String_js (EStr x) = x"
| "String_js (ENum i) = (if i < 0 then ''-'' @ nat_digits (nat (- i)) else nat_digits (nat i))"

text \<open>
  One entry of \<^verbatim>\<open>groups\<close>. The configuration schema (channel.ts) lists
  \<^verbatim>\<open>enabled\<close>, \<^verbatim>\<open>requireMention\<close> and \<^verbatim>\<open>allowFrom\<close> and leaves further
  properties open; \<open>g_groupPolicy\<close> stands for a \<^verbatim>\<open>groupPolicy\<close> key written on
  a channel entry.
\<close>

record GroupConfig =
  g_enabled :: "bool option"
  g_requireMention :: "bool option"
  g_allowFrom :: "AllowEntry list option"
  g_groupPolicy :: "string option"

record KookConfig =
  dmPolicy :: "string option"
  allowFrom :: "AllowEntry list option"
  groupPolicy :: "string option"
  groupAllowFrom :: "AllowEntry list option"
  requireMention :: "bool option"
  groups :: "string \<rightharpoonup> GroupConfig"

text \<open>
  \<^verbatim>\<open>ResolvedKookAccount\<close>: the account resolver (accounts.ts) is not part of the
  sources at hand, so the resolved account is an input of the handler.
\<close>

record ResolvedKookAccount =
  accountId :: string
  enabled :: bool
  configured :: bool
  token :: "string option"
  config :: KookConfig

text \<open>\<^verbatim>\<open>cfg.messages?.groupChat?.historyLimit\<close> of the host configuration.\<close>

record ClawdbotConfig =
  groupChat_historyLimit :: "int option"

subsection \<open>History entries, routes and the inbound context\<close>

record HistoryEntry =
  sender :: string
  body :: string
  timestamp :: int
  messageId :: string

type_synonym histories = "string \<rightharpoonup> HistoryEntry list"

record AgentRoute =
  route_sessionKey :: string
  route_accountId :: string
  route_agentId :: string

record InboundContext =
  Body :: string
  RawBody :: string
  CommandBody :: string
  From :: string
  To :: string
  SessionKey :: string
  AccountId :: string
  ChatType :: string
  GroupSubject :: "string option"
  SenderName :: string
  SenderId :: string
  MessageSid :: string
  Timestamp :: int
  WasMentioned :: bool

record DispatchResult =
  queuedFinal :: bool
  counts_final :: nat

text \<open>
  The host runtime (\<^verbatim>\<open>getKookRuntime()\<close>) and the pieces of the platform that
  the handler calls are collaborators outside the sources at hand; they are passed in
  as functions and are taken to return. \<open>regexStripMention botId text\<close> stands for
  the regular-expression chain of \<^verbatim>\<open>stripBotMention\<close> (remove
  \<^verbatim>\<open>(met)botId(met)\<close>, collapse runs of white space, trim).
  \<open>DEFAULT_GROUP_HISTORY_LIMIT\<close> is the constant of the plugin SDK. The awaited
  \<^verbatim>\<open>dispatchReplyFromConfig\<close> is not a field: the handler stops at the await, and
  the result of the dispatch, or the error it threw, arrives later (see
  \<open>dispatchSettled\<close>).
\<close>

record KookCore =
  resolveAgentRoute :: "string \<Rightarrow> bool \<Rightarrow> string \<Rightarrow> AgentRoute"
  formatAgentEnvelope :: "string \<Rightarrow> int \<Rightarrow> string \<Rightarrow> string"
  finalizeInboundContext :: "InboundContext \<Rightarrow> InboundContext"
  regexStripMention :: "string \<Rightarrow> string \<Rightarrow> string"
  DEFAULT_GROUP_HISTORY_LIMIT :: int

section \<open>The message handler (bot.ts)\<close>

text \<open>JavaScript truthiness of an optional string: present and not empty.\<close>

fun truthy :: "string option \<Rightarrow> bool" where
  "truthy None = False"
| "truthy (Some x) = (x \<noteq> [])"

definition extractContent :: "KookEventData \<Rightarrow> string" where
  "extractContent event =
     (if msg_type event = 9 \<and> truthy (kmarkdown_raw_content (extra event))
      then the (kmarkdown_raw_content (extra event))
      else content event)"

definition checkBotMentioned :: "KookEventData \<Rightarrow> string option \<Rightarrow> bool" where
  "checkBotMentioned event bid =
     (if \<not> truthy bid then False
      else the bid \<in> set (case mention (extra event) of None \<Rightarrow> [] | Some ms \<Rightarrow> ms))"

definition stripBotMention :: "KookCore \<Rightarrow> string \<Rightarrow> string option \<Rightarrow> string" where
  "stripBotMention core txt bid =
     (if \<not> truthy bid then txt else regexStripMention core (the bid) txt)"

definition isGroupAllowed :: "string \<Rightarrow> AllowEntry list \<Rightarrow> string \<Rightarrow> string \<Rightarrow> bool" where
  "isGroupAllowed policy allow guildId channelId =
     (if policy = ''disabled'' then False
      else if policy = ''open'' then True
      else list_ex (\<lambda>entry. String_js entry = guildId \<or> String_js entry = channelId) allow)"

definition isDmAllowed :: "string \<Rightarrow> AllowEntry list \<Rightarrow> string \<Rightarrow> bool" where
  "isDmAllowed policy allow senderId =
     (if policy = ''open'' then True
      else if policy = ''allowlist'' then list_ex (\<lambda>entry. String_js entry = senderId) allow
      else True)"

subsection \<open>The pending history buffer (plugin SDK)\<close>

text \<open>The entries buffered for a key of the history map.\<close>

definition bufferOf :: "histories \<Rightarrow> string \<Rightarrow> HistoryEntry list" where
  "bufferOf h key = (case h key of None \<Rightarrow> [] | Some es \<Rightarrow> es)"

text \<open>
  Modelled from the spec: \<^verbatim>\<open>recordPendingHistoryEntryIfEnabled\<close> of the plugin SDK,
  which bot.ts imports and which is not part of the sources at hand. The buffer of a
  channel is an ordered sequence whose capacity is the history limit; an unaddressed
  message is appended, and the oldest entries are evicted first, so that the buffer
  never holds more than the limit (with limit 0 it holds nothing).
\<close>

definition recordPendingHistoryEntryIfEnabled ::
    "histories \<Rightarrow> string \<Rightarrow> nat \<Rightarrow> HistoryEntry \<Rightarrow> histories" where
  "recordPendingHistoryEntryIfEnabled h key limit entry =
     (let es = bufferOf h key @ [entry] in h(key \<mapsto> drop (length es - limit) es))"

text \<open>
  Modelled from the spec: \<^verbatim>\<open>buildPendingHistoryContextFromMap\<close> of the plugin SDK,
  which bot.ts imports and which is not part of the sources at hand. The buffered
  entries of the channel are formatted and put, in their order, ahead of the current
  message (here one entry to a line). The map is only read.
\<close>

definition buildPendingHistoryContextFromMap ::
    "histories \<Rightarrow> string \<Rightarrow> nat \<Rightarrow> string \<Rightarrow> (HistoryEntry \<Rightarrow> string) \<Rightarrow> string" where
  "buildPendingHistoryContextFromMap h key limit currentMessage formatEntry =
     concat (map (\<lambda>entry. formatEntry entry @ [CHR 0x0A]) (bufferOf h key)) @ currentMessage"

text \<open>
  Modelled from the spec: \<^verbatim>\<open>clearHistoryEntriesIfEnabled\<close> of the plugin SDK, which
  bot.ts imports and which is not part of the sources at hand. Clearing leaves the
  channel's buffer empty.
\<close>

definition clearHistoryEntriesIfEnabled :: "histories \<Rightarrow> string \<Rightarrow> nat \<Rightarrow> histories" where
  "clearHistoryEntriesIfEnabled h key limit = h(key \<mapsto> [])"

subsection \<open>handleKookMessage\<close>

text \<open>
  The values that \<^verbatim>\<open>handleKookMessage\<close> resolves from the configuration, each named
  after the local constant of the source:
  \<^verbatim>\<open>historyLimit = Math.max(0, cfg.messages?.groupChat?.historyLimit ?? DEFAULT_GROUP_HISTORY_LIMIT)\<close>,
  \<^verbatim>\<open>groupPolicy = kookCfg?.groupPolicy ?? "allowlist"\<close>,
  \<^verbatim>\<open>groupAllowFrom = kookCfg?.groupAllowFrom ?? []\<close>,
  \<^verbatim>\<open>groupConfig = kookCfg?.groups?.[channelId] ?? kookCfg?.groups?.[guildId ?? ""]\<close>,
  \<^verbatim>\<open>requireMention = groupConfig?.requireMention ?? kookCfg?.requireMention ?? true\<close>.
\<close>

definition historyLimitOf :: "KookCore \<Rightarrow> ClawdbotConfig \<Rightarrow> nat" where
  "historyLimitOf core cfg =
     nat (max 0 (case groupChat_historyLimit cfg of
                   None \<Rightarrow> DEFAULT_GROUP_HISTORY_LIMIT core | Some l \<Rightarrow> l))"

definition groupPolicyOf :: "KookConfig \<Rightarrow> string" where
  "groupPolicyOf kookCfg = (case groupPolicy kookCfg of None \<Rightarrow> ''allowlist'' | Some p \<Rightarrow> p)"

definition groupAllowFromOf :: "KookConfig \<Rightarrow> AllowEntry list" where
  "groupAllowFromOf kookCfg = (case groupAllowFrom kookCfg of None \<Rightarrow> [] | Some a \<Rightarrow> a)"

definition orEmpty :: "string option \<Rightarrow> string" where
  "orEmpty x = (case x of None \<Rightarrow> [] | Some y \<Rightarrow> y)"

definition groupConfigOf :: "KookConfig \<Rightarrow> string \<Rightarrow> string option \<Rightarrow> GroupConfig option" where
  "groupConfigOf kookCfg channelId guildId =
     (case groups kookCfg channelId of
        Some g \<Rightarrow> Some g
      | None \<Rightarrow> groups kookCfg (orEmpty guildId))"

definition requireMentionOf :: "KookConfig \<Rightarrow> string \<Rightarrow> string option \<Rightarrow> bool" where
  "requireMentionOf kookCfg channelId guildId =
     (case Option.bind (groupConfigOf kookCfg channelId guildId) g_requireMention of
        Some r \<Rightarrow> r
      | None \<Rightarrow> (case requireMention kookCfg of Some r \<Rightarrow> r | None \<Rightarrow> True))"

text \<open>
  How far the synchronous part of a call of \<^verbatim>\<open>handleKookMessage\<close> gets: one of the
  four early returns, or the await of the dispatch with the context it was given.
\<close>

datatype Outcome =
    GroupNotAllowed
  | ChannelDisabled
  | RecordedToHistory
  | DmNotAllowed
  | Dispatching InboundContext

text \<open>The context that was dispatched, if the call got as far as the dispatch.\<close>

fun dispatchedContext :: "Outcome \<Rightarrow> InboundContext option" where
  "dispatchedContext (Dispatching c) = Some c"
| "dispatchedContext GroupNotAllowed = None"
| "dispatchedContext ChannelDisabled = None"
| "dispatchedContext RecordedToHistory = None"
| "dispatchedContext DmNotAllowed = None"

text \<open>The label \<^verbatim>\<open>senderName ?? senderId\<close>.\<close>

definition speakerOf :: "KookEventData \<Rightarrow> string" where
  "speakerOf event =
     (case author_username (extra event) of None \<Rightarrow> author_id event | Some n \<Rightarrow> n)"

text \<open>The entry recorded for a group message that does not mention the bot.\<close>

definition historyEntryOf :: "KookCore \<Rightarrow> int \<Rightarrow> KookEventData \<Rightarrow> string option \<Rightarrow> HistoryEntry" where
  "historyEntryOf core now event bid =
     \<lparr> sender = author_id event,
       body = speakerOf event @ '': '' @ stripBotMention core (extractContent event) bid,
       timestamp = now,
       messageId = msg_id event \<rparr>"

text \<open>
  The envelope of the current message: the optional quote line, the speaker label and
  \<^verbatim>\<open>formatAgentEnvelope\<close>.
\<close>

definition envelopeOf :: "KookCore \<Rightarrow> int \<Rightarrow> KookEventData \<Rightarrow> string option \<Rightarrow> string" where
  "envelopeOf core now event bid =
     (let cont = stripBotMention core (extractContent event) bid;
          isGroup = (channel_type event = GROUP);
          quotedContent = quote_content (extra event);
          messageBody =
            (if truthy quotedContent
             then ''[Replying to: '' @ [CHR 0x22] @ the quotedContent @ [CHR 0x22] @ '']''
                  @ [CHR 0x0A, CHR 0x0A] @ cont
             else cont);
          envelopeFrom =
            (if isGroup then target_id event @ '':'' @ author_id event else author_id event)
      in formatAgentEnvelope core envelopeFrom now (speakerOf event @ '': '' @ messageBody))"

text \<open>The formatter handed to \<^verbatim>\<open>buildPendingHistoryContextFromMap\<close>.\<close>

definition formatEntryOf :: "KookCore \<Rightarrow> string \<Rightarrow> HistoryEntry \<Rightarrow> string" where
  "formatEntryOf core channelId entry =
     formatAgentEnvelope core (channelId @ '':'' @ sender entry) (timestamp entry) (body entry)"

text \<open>The argument of \<^verbatim>\<open>finalizeInboundContext\<close>, for a given combined body.\<close>

definition contextOf ::
    "KookCore \<Rightarrow> ResolvedKookAccount \<Rightarrow> int \<Rightarrow> KookEventData \<Rightarrow> string option \<Rightarrow> string
     \<Rightarrow> InboundContext" where
  "contextOf core acct now event bid combinedBody =
     (let isGroup = (channel_type event = GROUP);
          cont = stripBotMention core (extractContent event) bid;
          senderId = author_id event;
          channelId = target_id event;
          route = resolveAgentRoute core (accountId acct) isGroup
                    (if isGroup then channelId else senderId);
          kookTo = (if isGroup then ''channel:'' @ channelId else ''user:'' @ senderId)
      in \<lparr> Body = combinedBody,
           RawBody = cont,
           CommandBody = cont,
           From = ''kook:'' @ senderId,
           To = kookTo,
           SessionKey = route_sessionKey route,
           AccountId = route_accountId route,
           ChatType = (if isGroup then ''group'' else ''direct''),
           GroupSubject = (if isGroup then Some channelId else None),
           SenderName = speakerOf event,
           SenderId = senderId,
           MessageSid = msg_id event,
           Timestamp = now,
           WasMentioned = checkBotMentioned event bid \<rparr>)"

text \<open>
  The \<^verbatim>\<open>try\<close> block up to \<^verbatim>\<open>await dispatchReplyFromConfig\<close>. The history is
  read under the guard \<^verbatim>\<open>isGroup && historyKey && chatHistories\<close>, where
  \<^verbatim>\<open>historyKey\<close> is the channel id of a group message.
\<close>

definition usesHistory :: "KookEventData \<Rightarrow> histories option \<Rightarrow> bool" where
  "usesHistory event hist = (channel_type event = GROUP \<and> target_id event \<noteq> [] \<and> hist \<noteq> None)"

definition dispatchToAgent ::
    "KookCore \<Rightarrow> ClawdbotConfig \<Rightarrow> ResolvedKookAccount \<Rightarrow> int \<Rightarrow> KookEventData
     \<Rightarrow> string option \<Rightarrow> histories option \<Rightarrow> Outcome \<times> histories option" where
  "dispatchToAgent core cfg acct now event bid hist =
     (let channelId = target_id event;
          historyLimit = historyLimitOf core cfg;
          envelope = envelopeOf core now event bid;
          combinedBody =
            (if usesHistory event hist
             then buildPendingHistoryContextFromMap (the hist) channelId historyLimit
                    envelope (formatEntryOf core channelId)
             else envelope);
          ctxPayload = finalizeInboundContext core (contextOf core acct now event bid combinedBody)
      in (Dispatching ctxPayload, hist))"

text \<open>
  The rest of the \<^verbatim>\<open>try\<close> block, run when the awaited dispatch settles: \<open>res\<close> is
  the result of the dispatch, or \<open>Inl\<close> of the error it threw, and \<open>hist\<close> is the
  shared history map as it stands at that moment. After a dispatch that returned, the
  channel's history is cleared under the same guard; a dispatch that threw goes to the
  \<^verbatim>\<open>catch\<close> branch, which only logs.
\<close>

definition dispatchSettled ::
    "KookCore \<Rightarrow> ClawdbotConfig \<Rightarrow> KookEventData \<Rightarrow> string + DispatchResult
     \<Rightarrow> histories option \<Rightarrow> histories option" where
  "dispatchSettled core cfg event res hist =
     (case res of
        Inl err \<Rightarrow> hist
      | Inr r \<Rightarrow>
          if usesHistory event hist
          then Some (clearHistoryEntriesIfEnabled (the hist) (target_id event)
                       (historyLimitOf core cfg))
          else hist)"

text \<open>
  \<^verbatim>\<open>handleKookMessage\<close> up to its only await: the policy gates, the recording of
  an unaddressed group message, and the start of the dispatch.
\<close>

definition handleKookMessage ::
    "KookCore \<Rightarrow> ClawdbotConfig \<Rightarrow> ResolvedKookAccount \<Rightarrow> int \<Rightarrow> KookEventData
     \<Rightarrow> string option \<Rightarrow> histories option \<Rightarrow> Outcome \<times> histories option" where
  "handleKookMessage core cfg acct now event bid hist =
     (let kookCfg = config acct;
          isGroup = (channel_type event = GROUP);
          mentionedBot = checkBotMentioned event bid;
          senderId = author_id event;
          guildId = guild_id (extra event);
          channelId = target_id event;
          historyLimit = historyLimitOf core cfg
      in
      if isGroup then
        if \<not> isGroupAllowed (groupPolicyOf kookCfg) (groupAllowFromOf kookCfg)
                 (orEmpty guildId) channelId
        then (GroupNotAllowed, hist)
        else if Option.bind (groupConfigOf kookCfg channelId guildId) g_enabled = Some False
        then (ChannelDisabled, hist)
        else if requireMentionOf kookCfg channelId guildId \<and> \<not> mentionedBot
        then (RecordedToHistory,
              map_option (\<lambda>h. recordPendingHistoryEntryIfEnabled h channelId historyLimit
                                 (historyEntryOf core now event bid)) hist)
        else dispatchToAgent core cfg acct now event bid hist
      else
        if \<not> isDmAllowed (case dmPolicy kookCfg of None \<Rightarrow> ''pairing'' | Some p \<Rightarrow> p)
                 (case allowFrom kookCfg of None \<Rightarrow> [] | Some a \<Rightarrow> a) senderId
        then (DmNotAllowed, hist)
        else dispatchToAgent core cfg acct now event bid hist)"

section \<open>The gateway session (connectWebSocket)\<close>

text \<open>
  \<^verbatim>\<open>connectWebSocket\<close> is a set of callbacks over shared variables. The record
  \<open>Session\<close> holds those variables under their names in the source: the variables of
  \<^verbatim>\<open>connectWebSocket\<close> itself (\<open>botId\<close>, \<open>chatHistories\<close>, \<open>sn\<close>,
  \<open>sessionId\<close>, \<open>reconnectAttempt\<close>), the abort signal (\<open>aborted\<close>, and whether
  \<^verbatim>\<open>handleAbort\<close> is registered on it), and the variables of the current socket's
  promise (\<open>ws\<close> with its ready state, \<open>heartbeatTimer\<close>, \<open>helloTimer\<close>,
  \<open>resolved\<close>; a timer variable holds the period of the timer while it holds the
  timer's handle). \<open>leaked\<close> counts the heartbeat tickers that run although no
  variable holds their handle any more: a Hello frame assigns a new ticker to
  \<open>heartbeatTimer\<close> without clearing the one the variable held. \<open>inflight\<close> lists
  the events whose call of \<^verbatim>\<open>handleKookMessage\<close> waits for its dispatch.
  \<open>phase\<close> says which continuation the asynchronous code waits for,
  \<open>promise\<close> is the promise that \<^verbatim>\<open>connectWebSocket\<close> returned, and three logs
  record what the session did: the requests, sockets, pings and waits it issued, the
  events it passed to \<^verbatim>\<open>handleKookMessage\<close>, and the contexts it dispatched.
\<close>

definition HEARTBEAT_INTERVAL_MS :: nat where "HEARTBEAT_INTERVAL_MS = 30000"
definition HELLO_TIMEOUT_MS :: nat where "HELLO_TIMEOUT_MS = 6000"
definition RECONNECT_BASE_MS :: nat where "RECONNECT_BASE_MS = 2000"
definition MAX_RECONNECT_WAIT_MS :: nat where "MAX_RECONNECT_WAIT_MS = 60000"

text \<open>A REST call either throws or returns \<^verbatim>\<open>{ code, message, data }\<close>.\<close>

datatype 'a KookApiResponse = Threw string | Response int string 'a

datatype ReadyState = CONNECTING | OPEN | CLOSING | CLOSED

datatype Phase = Starting | Fetching | OnSocket | Backoff | Settled

datatype PromiseState = Pending | Fulfilled | Rejected string

datatype Effect = FetchGateway | NewWebSocket string | SendPing int | Sleep nat

record Session =
  botId :: "string option"
  chatHistories :: histories
  sn :: int
  sessionId :: string
  reconnectAttempt :: nat
  aborted :: bool
  abortListener :: bool
  ws :: "ReadyState option"
  heartbeatTimer :: "nat option"
  helloTimer :: "nat option"
  leaked :: nat
  resolved :: bool
  inflight :: "KookEventData list"
  phase :: Phase
  promise :: PromiseState
  effects :: "Effect list"
  handled :: "KookEventData list"
  dispatched :: "InboundContext list"

text \<open>\<^verbatim>\<open>fetchBotId\<close>: the id of a successful reply, undefined otherwise.\<close>

definition fetchBotId :: "string KookApiResponse \<Rightarrow> string option" where
  "fetchBotId res =
     (case res of
        Threw err \<Rightarrow> None
      | Response code msg uid \<Rightarrow> if code = 0 then Some uid else None)"

text \<open>\<^verbatim>\<open>ws.close()\<close> on a socket that is connecting or open starts its closing.\<close>

definition closeSocket :: "ReadyState option \<Rightarrow> ReadyState option" where
  "closeSocket r = (if r = Some CONNECTING \<or> r = Some OPEN then Some CLOSING else r)"

definition cleanup :: "Session \<Rightarrow> Session" where
  "cleanup st = st\<lparr> heartbeatTimer := None, helloTimer := None, ws := closeSocket (ws st) \<rparr>"

text \<open>Settling the promise of \<^verbatim>\<open>connectWebSocket\<close>.\<close>

definition resolvePromise :: "Session \<Rightarrow> Session" where
  "resolvePromise st = st\<lparr> promise := Fulfilled, phase := Settled \<rparr>"

definition rejectPromise :: "string \<Rightarrow> Session \<Rightarrow> Session" where
  "rejectPromise err st = st\<lparr> promise := Rejected err, phase := Settled \<rparr>"

text \<open>\<^verbatim>\<open>connect\<close> up to its first await: the request for the gateway URL.\<close>

definition connect :: "Session \<Rightarrow> Session" where
  "connect st =
     (if aborted st then resolvePromise st
      else st\<lparr> phase := Fetching, effects := effects st @ [FetchGateway] \<rparr>)"

text \<open>\<^verbatim>\<open>scheduleReconnect\<close> up to its await of the backoff wait.\<close>

definition scheduleReconnect :: "Session \<Rightarrow> Session" where
  "scheduleReconnect st =
     (if aborted st then resolvePromise st
      else
        let attempt = reconnectAttempt st + 1;
            waitMs = min (RECONNECT_BASE_MS * 2 ^ (attempt - 1)) MAX_RECONNECT_WAIT_MS
        in st\<lparr> reconnectAttempt := attempt, phase := Backoff,
                effects := effects st @ [Sleep waitMs] \<rparr>)"

text \<open>\<^verbatim>\<open>scheduleReconnect\<close> after the wait.\<close>

definition backoffElapsed :: "Session \<Rightarrow> Session" where
  "backoffElapsed st = (if aborted st then resolvePromise st else connect st)"

definition handleAbort :: "Session \<Rightarrow> Session" where
  "handleAbort st =
     (let st1 = cleanup st
      in if \<not> resolved st1 then resolvePromise (st1\<lparr> resolved := True \<rparr>) else st1)"

text \<open>
  \<^verbatim>\<open>connect\<close> after the gateway replied: a reply that threw or carries a code other
  than 0 rejects; otherwise the socket is created, and either closed at once (the
  signal is already aborted) or given its abort listener and hello timer.
\<close>

definition gatewayReplied :: "string KookApiResponse \<Rightarrow> Session \<Rightarrow> Session" where
  "gatewayReplied res st =
     (case res of
        Threw err \<Rightarrow> rejectPromise err st
      | Response code msg url \<Rightarrow>
          if code \<noteq> 0
          then rejectPromise (''Failed to get KOOK gateway: ''
                 @ (if msg \<noteq> [] then msg else ''code '' @ String_js (ENum code))) st
          else
            let st1 = st\<lparr> ws := Some CONNECTING, heartbeatTimer := None, helloTimer := None,
                           resolved := False, effects := effects st @ [NewWebSocket url] \<rparr>
            in if aborted st1 then resolvePromise (cleanup st1)
               else st1\<lparr> abortListener := True, helloTimer := Some HELLO_TIMEOUT_MS,
                          phase := OnSocket \<rparr>)"

text \<open>The callback of the hello timer.\<close>

definition helloTimeout :: "Session \<Rightarrow> Session" where
  "helloTimeout st =
     (let st1 = (cleanup st)\<lparr> abortListener := False \<rparr>
      in if \<not> resolved st1 then scheduleReconnect (st1\<lparr> resolved := True \<rparr>) else st1)"

text \<open>The listener of \<^verbatim>\<open>open\<close>.\<close>

definition onOpen :: "Session \<Rightarrow> Session" where
  "onOpen st = st\<lparr> reconnectAttempt := 0 \<rparr>"

text \<open>
  The call \<^verbatim>\<open>void handleKookMessage({...}).catch(...)\<close>: the handler runs up to its
  await on the shared history map; a call that started a dispatch is kept in
  \<open>inflight\<close> until the dispatch settles.
\<close>

definition forward ::
    "KookCore \<Rightarrow> ClawdbotConfig \<Rightarrow> ResolvedKookAccount \<Rightarrow> int \<Rightarrow> KookEventData
     \<Rightarrow> Session \<Rightarrow> Session" where
  "forward core cfg acct now eventData st =
     (case handleKookMessage core cfg acct now eventData (botId st) (Some (chatHistories st)) of
        (outcome, hist) \<Rightarrow>
          st\<lparr> chatHistories := (case hist of None \<Rightarrow> chatHistories st | Some h \<Rightarrow> h),
              handled := handled st @ [eventData],
              dispatched := dispatched st @
                (case dispatchedContext outcome of None \<Rightarrow> [] | Some c \<Rightarrow> [c]),
              inflight := inflight st @
                (case dispatchedContext outcome of None \<Rightarrow> [] | Some c \<Rightarrow> [eventData]) \<rparr>)"

text \<open>
  The dispatch of the call at position \<open>i\<close> of \<open>inflight\<close> settles: the rest of that
  call runs on the history map as it stands now.
\<close>

definition onDispatchSettled ::
    "KookCore \<Rightarrow> ClawdbotConfig \<Rightarrow> nat \<Rightarrow> string + DispatchResult \<Rightarrow> Session \<Rightarrow> Session" where
  "onDispatchSettled core cfg i res st =
     (if i < length (inflight st)
      then st\<lparr> chatHistories :=
                  (case dispatchSettled core cfg (inflight st ! i) res (Some (chatHistories st)) of
                     None \<Rightarrow> chatHistories st | Some h \<Rightarrow> h),
                inflight := take i (inflight st) @ drop (Suc i) (inflight st) \<rparr>
      else st)"

text \<open>
  The listener of \<^verbatim>\<open>message\<close>, for a frame that parsed: the \<^verbatim>\<open>switch\<close> on
  \<^verbatim>\<open>frame.s\<close>. The Hello case starts a ticker with \<^verbatim>\<open>setInterval\<close> and stores
  its handle in \<open>heartbeatTimer\<close>; a ticker whose handle the variable held before
  keeps running and is counted in \<open>leaked\<close>.
\<close>

definition onMessage ::
    "KookCore \<Rightarrow> ClawdbotConfig \<Rightarrow> ResolvedKookAccount \<Rightarrow> int \<Rightarrow> KookSignalFrame
     \<Rightarrow> Session \<Rightarrow> Session" where
  "onMessage core cfg acct now frame st =
     (if frame_s frame = 1 then
        st\<lparr> helloTimer := None,
            sessionId := (case session_id (frame_d frame) of None \<Rightarrow> sessionId st | Some x \<Rightarrow> x),
            leaked := (if heartbeatTimer st \<noteq> None then leaked st + 1 else leaked st),
            heartbeatTimer := Some HEARTBEAT_INTERVAL_MS \<rparr>
      else if frame_s frame = 0 then
        let st1 = (case frame_sn frame of None \<Rightarrow> st | Some k \<Rightarrow> st\<lparr> sn := k \<rparr>);
            eventData = event_data (frame_d frame)
        in if truthy (botId st1) \<and> author_id eventData = the (botId st1) then st1
           else if msg_type eventData = 255 then st1
           else if msg_type eventData \<noteq> 1 \<and> msg_type eventData \<noteq> 9 \<and> msg_type eventData \<noteq> 10
           then st1
           else forward core cfg acct now eventData st1
      else if frame_s frame = 3 then st
      else if frame_s frame = 5 then
        let st1 = (cleanup (st\<lparr> sn := 0, sessionId := [] \<rparr>))\<lparr> abortListener := False \<rparr>
        in if \<not> resolved st1 then scheduleReconnect (st1\<lparr> resolved := True \<rparr>) else st1
      else if frame_s frame = 6 then
        st\<lparr> sessionId := (case session_id (frame_d frame) of None \<Rightarrow> sessionId st | Some x \<Rightarrow> x) \<rparr>
      else st)"

text \<open>The listener of \<^verbatim>\<open>close\<close>.\<close>

definition onClose :: "Session \<Rightarrow> Session" where
  "onClose st =
     (let st1 = (cleanup st)\<lparr> abortListener := False \<rparr>
      in if \<not> resolved st1 \<and> \<not> aborted st1 then scheduleReconnect (st1\<lparr> resolved := True \<rparr>)
         else if \<not> resolved st1 then resolvePromise (st1\<lparr> resolved := True \<rparr>)
         else st1)"

text \<open>The callback of the heartbeat ticker: \<^verbatim>\<open>ws.send(JSON.stringify({ s: 2, sn }))\<close>.\<close>

definition heartbeatTick :: "Session \<Rightarrow> Session" where
  "heartbeatTick st = st\<lparr> effects := effects st @ [SendPing (sn st)] \<rparr>"

text \<open>
  What can happen to a session. The platform delivers \<^verbatim>\<open>open\<close> to a connecting
  socket, messages to an open one, \<^verbatim>\<open>close\<close> once, a timer's callback while the timer
  is armed (a leaked ticker ticks as well), the settlement of a dispatch that is in
  flight, and the abort to \<^verbatim>\<open>handleAbort\<close> while it is registered. An event that
  the platform would not deliver in a state leaves the state as it is; so do a message
  that does not parse and the \<^verbatim>\<open>error\<close> event, which only log. A message carries the
  clock reading at its arrival. After a socket's promise was handed on to
  \<^verbatim>\<open>scheduleReconnect\<close>, or settled, the listeners of that socket find
  \<open>resolved\<close> set and change nothing but the socket's ready state.
\<close>

datatype SessionEvent =
    GatewayReply "string KookApiResponse"
  | WsOpen
  | WsMessage int KookSignalFrame
  | WsMalformed
  | WsError
  | WsClose
  | HelloTimerFired
  | HeartbeatTimerFired
  | LeakedTickerFired
  | BackoffTimerFired
  | DispatchSettled nat "string + DispatchResult"
  | AbortSignal

fun step ::
    "KookCore \<Rightarrow> ClawdbotConfig \<Rightarrow> ResolvedKookAccount \<Rightarrow> SessionEvent \<Rightarrow> Session \<Rightarrow> Session" where
  "step core cfg acct (GatewayReply res) st =
     (if phase st = Fetching then gatewayReplied res st else st)"
| "step core cfg acct WsOpen st =
     (if phase st = OnSocket \<and> ws st = Some CONNECTING then onOpen (st\<lparr> ws := Some OPEN \<rparr>) else st)"
| "step core cfg acct (WsMessage now frame) st =
     (if phase st = OnSocket \<and> ws st = Some OPEN then onMessage core cfg acct now frame st else st)"
| "step core cfg acct WsMalformed st = st"
| "step core cfg acct WsError st = st"
| "step core cfg acct WsClose st =
     (if ws st = None \<or> ws st = Some CLOSED then st
      else if phase st = OnSocket then onClose (st\<lparr> ws := Some CLOSED \<rparr>)
      else st\<lparr> ws := Some CLOSED \<rparr>)"
| "step core cfg acct HelloTimerFired st =
     (if phase st = OnSocket \<and> helloTimer st \<noteq> None then helloTimeout st else st)"
| "step core cfg acct HeartbeatTimerFired st =
     (if phase st = OnSocket \<and> heartbeatTimer st \<noteq> None then heartbeatTick st else st)"
| "step core cfg acct LeakedTickerFired st =
     (if 0 < leaked st then heartbeatTick st else st)"
| "step core cfg acct BackoffTimerFired st =
     (if phase st = Backoff then backoffElapsed st else st)"
| "step core cfg acct (DispatchSettled i res) st = onDispatchSettled core cfg i res st"
| "step core cfg acct AbortSignal st =
     (if aborted st then st
      else if abortListener st then handleAbort (st\<lparr> aborted := True, abortListener := False \<rparr>)
      else st\<lparr> aborted := True \<rparr>)"

definition run ::
    "KookCore \<Rightarrow> ClawdbotConfig \<Rightarrow> ResolvedKookAccount \<Rightarrow> SessionEvent list \<Rightarrow> Session \<Rightarrow> Session" where
  "run core cfg acct evs st = foldl (\<lambda>s ev. step core cfg acct ev s) st evs"

text \<open>
  \<^verbatim>\<open>connectWebSocket\<close> up to the first request for the gateway: the token check, the
  self-identity probe (its reply is \<open>probe\<close>), the fresh variables, \<^verbatim>\<open>connect()\<close>.
  \<open>ab\<close> says whether the abort signal has fired by then.
\<close>

definition newSession :: "string option \<Rightarrow> bool \<Rightarrow> Session" where
  "newSession bid ab =
     \<lparr> botId = bid, chatHistories = Map.empty, sn = 0, sessionId = [], reconnectAttempt = 0,
       aborted = ab, abortListener = False, ws = None, heartbeatTimer = None,
       helloTimer = None, leaked = 0, resolved = False, inflight = [], phase = Starting,
       promise = Pending,
       effects = [], handled = [], dispatched = [] \<rparr>"

definition connectWebSocket ::
    "ResolvedKookAccount \<Rightarrow> string KookApiResponse \<Rightarrow> bool \<Rightarrow> string + Session" where
  "connectWebSocket acct probe ab =
     (if \<not> truthy (token acct)
      then Inl (''KOOK account '' @ [CHR 0x22] @ accountId acct @ [CHR 0x22] @ '' has no token'')
      else Inr (connect (newSession (fetchBotId probe) ab)))"

text \<open>
  The states the session keeps to: while the listeners of a socket are in charge the
  socket is connecting or open, \<^verbatim>\<open>handleAbort\<close> is registered, neither
  \<open>resolved\<close> nor the abort flag is set, and the attempt count is 0 once the socket
  is open; otherwise no listener is registered and no timer is armed; the promise is
  pending until the session has settled.
\<close>

definition session_ok :: "Session \<Rightarrow> bool" where
  "session_ok st =
     ((if phase st = OnSocket
       then abortListener st \<and> \<not> resolved st \<and> \<not> aborted st
            \<and> (ws st = Some CONNECTING \<or> ws st = Some OPEN \<and> reconnectAttempt st = 0)
       else \<not> abortListener st \<and> heartbeatTimer st = None \<and> helloTimer st = None)
      \<and> (promise st = Pending) = (phase st \<noteq> Settled)
      \<and> phase st \<noteq> Starting)"

text \<open>The session is live: its socket is open and the heartbeat ticker runs.\<close>

definition live :: "Session \<Rightarrow> bool" where
  "live st = (session_ok st \<and> phase st = OnSocket \<and> ws st = Some OPEN
              \<and> heartbeatTimer st \<noteq> None \<and> helloTimer st = None)"

text \<open>
  Some hello timer or heartbeat ticker of the session is running: one whose handle a
  variable holds, or a leaked one.
\<close>

definition tickersArmed :: "Session \<Rightarrow> bool" where
  "tickersArmed st = (heartbeatTimer st \<noteq> None \<or> helloTimer st \<noteq> None \<or> 0 < leaked st)"

text \<open>
  An event that is not an Event frame, or is an Event frame with a group message of a
  channel for which \<^verbatim>\<open>requireMention\<close> resolves true.
\<close>

fun mentionGated :: "ResolvedKookAccount \<Rightarrow> SessionEvent \<Rightarrow> bool" where
  "mentionGated acct (WsMessage now f) =
     (frame_s f \<noteq> 0
      \<or> channel_type (event_data (frame_d f)) = GROUP
        \<and> requireMentionOf (config acct) (target_id (event_data (frame_d f)))
             (guild_id (extra (event_data (frame_d f)))))"
| "mentionGated acct ev = True"

text \<open>The wait and request effects of a session: what a reconnect leaves in the log.\<close>

fun isReconnectEffect :: "Effect \<Rightarrow> bool" where
  "isReconnectEffect (Sleep ms) = True"
| "isReconnectEffect FetchGateway = True"
| "isReconnectEffect (NewWebSocket url) = False"
| "isReconnectEffect (SendPing k) = False"

definition reconnects :: "Session \<Rightarrow> Effect list" where
  "reconnects st = filter isReconnectEffect (effects st)"

text \<open>The pings of a session: what the ticks of a heartbeat ticker leave in the log.\<close>

fun isPing :: "Effect \<Rightarrow> bool" where
  "isPing (SendPing k) = True"
| "isPing FetchGateway = False"
| "isPing (NewWebSocket url) = False"
| "isPing (Sleep ms) = False"

definition pings :: "Session \<Rightarrow> Effect list" where
  "pings st = filter isPing (effects st)"

text \<open>
  The override chain for the group policy as the specification words it: the
  channel's own value, else the account's value, else \<^verbatim>\<open>allowlist\<close>.
\<close>

definition spec_groupPolicy :: "KookConfig \<Rightarrow> string \<Rightarrow> string option \<Rightarrow> string" where
  "spec_groupPolicy kookCfg channelId guildId =
     (case Option.bind (groupConfigOf kookCfg channelId guildId) g_groupPolicy of
        Some p \<Rightarrow> p
      | None \<Rightarrow> (case groupPolicy kookCfg of Some p \<Rightarrow> p | None \<Rightarrow> ''allowlist''))"

section \<open>Concrete inputs\<close>

text \<open>Collaborators that label a route and an envelope in the plainest way.\<close>

definition core_ok :: KookCore where
  "core_ok =
     \<lparr> resolveAgentRoute = (\<lambda>account isGroup peer.
         \<lparr> route_sessionKey = ''kook:'' @ peer, route_accountId = account, route_agentId = ''main'' \<rparr>),
       formatAgentEnvelope = (\<lambda>sender_label ts txt. ''['' @ sender_label @ ''] '' @ txt),
       finalizeInboundContext = (\<lambda>c. c),
       regexStripMention = (\<lambda>bid txt. txt),
       DEFAULT_GROUP_HISTORY_LIMIT = 50 \<rparr>"

definition cfg_plain :: ClawdbotConfig where
  "cfg_plain = \<lparr> groupChat_historyLimit = None \<rparr>"

text \<open>A host configuration that sets the history limit to 0, and one that sets it to 2.\<close>

definition cfg_nohistory :: ClawdbotConfig where
  "cfg_nohistory = \<lparr> groupChat_historyLimit = Some 0 \<rparr>"

definition cfg_short :: ClawdbotConfig where
  "cfg_short = \<lparr> groupChat_historyLimit = Some 2 \<rparr>"

text \<open>An account with nothing configured but its token, and one whose groups are open.\<close>

definition config_default :: KookConfig where
  "config_default =
     \<lparr> dmPolicy = None, allowFrom = None, groupPolicy = None, groupAllowFrom = None,
       requireMention = None, groups = Map.empty \<rparr>"

definition acct_default :: ResolvedKookAccount where
  "acct_default =
     \<lparr> accountId = ''default'', enabled = True, configured = True, token = Some ''t0k'',
       config = config_default \<rparr>"

definition acct_open :: ResolvedKookAccount where
  "acct_open = acct_default\<lparr> config := config_default\<lparr> groupPolicy := Some ''open'' \<rparr> \<rparr>"

text \<open>
  An account that disables groups while the entry of channel \<^verbatim>\<open>c1\<close> carries
  \<^verbatim>\<open>groupPolicy: "open"\<close>.
\<close>

definition acct_channel_open :: ResolvedKookAccount where
  "acct_channel_open =
     acct_default\<lparr> config := config_default
       \<lparr> groupPolicy := Some ''disabled'',
         groups := [''c1'' \<mapsto> \<lparr> g_enabled = None, g_requireMention = None, g_allowFrom = None,
                                g_groupPolicy = Some ''open'' \<rparr>] \<rparr> \<rparr>"

text \<open>Group messages in channel \<^verbatim>\<open>c1\<close>, a text message by user \<^verbatim>\<open>u7\<close>.\<close>

definition extra_none :: EventExtra where
  "extra_none =
     \<lparr> guild_id = None, mention = None, author_username = None,
       kmarkdown_raw_content = None, quote_content = None \<rparr>"

definition ev_plain :: KookEventData where
  "ev_plain =
     \<lparr> channel_type = GROUP, msg_type = 1, target_id = ''c1'', author_id = ''u7'',
       content = ''hello'', msg_id = ''m1'', extra = extra_none \<rparr>"

text \<open>The same message mentioning the bot \<^verbatim>\<open>b9\<close>.\<close>

definition ev_mention :: KookEventData where
  "ev_mention = ev_plain\<lparr> msg_id := ''m2'', extra := extra_none\<lparr> mention := Some [''b9''] \<rparr> \<rparr>"

text \<open>A message whose author id is the empty string.\<close>

definition ev_noauthor :: KookEventData where
  "ev_noauthor = ev_plain\<lparr> author_id := [] \<rparr>"

definition entry_old :: HistoryEntry where
  "entry_old = \<lparr> sender = ''u3'', body = ''u3: earlier'', timestamp = 5, messageId = ''m0'' \<rparr>"

definition frame_of :: "int \<Rightarrow> int option \<Rightarrow> KookEventData \<Rightarrow> KookSignalFrame" where
  "frame_of sig seq ev =
     \<lparr> frame_s = sig, frame_d = \<lparr> session_id = None, event_data = ev \<rparr>, frame_sn = seq \<rparr>"

definition frame_hello :: KookSignalFrame where
  "frame_hello =
     \<lparr> frame_s = 1, frame_d = \<lparr> session_id = Some ''sess-1'', event_data = ev_plain \<rparr>,
       frame_sn = None \<rparr>"

definition gateway_ok :: "string KookApiResponse" where
  "gateway_ok = Response 0 ''ok'' ''wss://gateway''"

text \<open>
  Sessions: one that waits for its first gateway reply, one that is live, for a bot
  with the given id.
\<close>

definition session_started :: "string option \<Rightarrow> Session" where
  "session_started bid = connect (newSession bid False)"

definition session_live :: "string option \<Rightarrow> Session" where
  "session_live bid =
     run core_ok cfg_plain acct_open
       [GatewayReply gateway_ok, WsOpen, WsMessage 0 frame_hello] (session_started bid)"

text \<open>
  A session whose sockets never open: after each hello timeout and wait it connects
  again. \<open>session_after_timeouts k\<close> waits on its connecting socket after \<open>k\<close> such
  rounds.
\<close>

fun timeouts :: "nat \<Rightarrow> SessionEvent list" where
  "timeouts 0 = [GatewayReply gateway_ok]"
| "timeouts (Suc k) = [GatewayReply gateway_ok, HelloTimerFired, BackoffTimerFired] @ timeouts k"

definition session_after_timeouts :: "nat \<Rightarrow> Session" where
  "session_after_timeouts k =
     run core_ok cfg_plain acct_open (timeouts k) (session_started (Some ''b9''))"

definition two :: nat where "two = Suc (Suc 0)"

definition five :: nat where "five = Suc (Suc (Suc (Suc (Suc 0))))"

text \<open>A session in its backoff wait (after one hello timeout).\<close>

definition session_waiting :: Session where
  "session_waiting =
     run core_ok cfg_plain acct_open [GatewayReply gateway_ok, HelloTimerFired]
       (session_started (Some ''b9''))"

text \<open>A history map in which the buffer of channel \<^verbatim>\<open>c1\<close> holds one entry.\<close>

definition hist_c1 :: histories where
  "hist_c1 = [''c1'' \<mapsto> [entry_old]]"

section \<open>Properties\<close>

subsection \<open>Auxiliary facts\<close>

lemmas handler_defs = onMessage_def onOpen_def onClose_def helloTimeout_def handleAbort_def
  onDispatchSettled_def
  heartbeatTick_def gatewayReplied_def backoffElapsed_def scheduleReconnect_def connect_def
  cleanup_def closeSocket_def resolvePromise_def rejectPromise_def

lemmas const_defs = HEARTBEAT_INTERVAL_MS_def HELLO_TIMEOUT_MS_def RECONNECT_BASE_MS_def
  MAX_RECONNECT_WAIT_MS_def

lemmas fixture_defs = session_live_def session_started_def run_def newSession_def
  gateway_ok_def frame_hello_def frame_of_def

lemmas bot_defs = handleKookMessage_def dispatchToAgent_def dispatchSettled_def usesHistory_def
  recordPendingHistoryEntryIfEnabled_def buildPendingHistoryContextFromMap_def
  clearHistoryEntriesIfEnabled_def bufferOf_def contextOf_def envelopeOf_def
  formatEntryOf_def historyEntryOf_def speakerOf_def requireMentionOf_def groupConfigOf_def
  groupPolicyOf_def groupAllowFromOf_def orEmpty_def historyLimitOf_def isGroupAllowed_def
  isDmAllowed_def checkBotMentioned_def stripBotMention_def extractContent_def

lemmas input_defs = core_ok_def cfg_plain_def cfg_nohistory_def cfg_short_def config_default_def
  acct_default_def acct_open_def acct_channel_open_def extra_none_def ev_plain_def
  ev_mention_def ev_noauthor_def entry_old_def hist_c1_def

lemma run_Nil: "run core cfg acct [] st = st"
  by (simp add: run_def)

lemma run_Cons: "run core cfg acct (ev # evs) st = run core cfg acct evs (step core cfg acct ev st)"
  by (simp add: run_def)

text \<open>Passing an event to the handler touches the histories and the two logs only.\<close>

lemma forward_frame:
  "sn (forward core cfg acct now ev st) = sn st"
  "phase (forward core cfg acct now ev st) = phase st"
  "ws (forward core cfg acct now ev st) = ws st"
  "botId (forward core cfg acct now ev st) = botId st"
  "effects (forward core cfg acct now ev st) = effects st"
  "promise (forward core cfg acct now ev st) = promise st"
  "aborted (forward core cfg acct now ev st) = aborted st"
  "abortListener (forward core cfg acct now ev st) = abortListener st"
  "resolved (forward core cfg acct now ev st) = resolved st"
  "heartbeatTimer (forward core cfg acct now ev st) = heartbeatTimer st"
  "helloTimer (forward core cfg acct now ev st) = helloTimer st"
  "reconnectAttempt (forward core cfg acct now ev st) = reconnectAttempt st"
  "sessionId (forward core cfg acct now ev st) = sessionId st"
  "leaked (forward core cfg acct now ev st) = leaked st"
  "handled (forward core cfg acct now ev st) = handled st @ [ev]"
  by (simp_all add: forward_def split: prod.splits)

lemma event_frame:
  assumes "frame_s f = 0"
  shows "sn (onMessage core cfg acct now f st) = (case frame_sn f of None \<Rightarrow> sn st | Some k \<Rightarrow> k)"
    and "phase (onMessage core cfg acct now f st) = phase st"
    and "ws (onMessage core cfg acct now f st) = ws st"
    and "handled (onMessage core cfg acct now f st) =
           (if (\<not> truthy (botId st) \<or> author_id (event_data (frame_d f)) \<noteq> the (botId st))
               \<and> msg_type (event_data (frame_d f)) \<noteq> 255
               \<and> msg_type (event_data (frame_d f)) \<in> {1, 9, 10}
            then handled st @ [event_data (frame_d f)] else handled st)"
  using assms by (auto simp: onMessage_def Let_def forward_frame split: option.splits)

lemma run_event_frames:
  assumes "phase st = OnSocket" and "ws st = Some OPEN"
    and "\<forall>tf \<in> set fs. frame_s (snd tf) = 0"
  shows "sn (run core cfg acct (map (\<lambda>tf. WsMessage (fst tf) (snd tf)) fs) st)
           = last (sn st # List.map_filter (\<lambda>tf. frame_sn (snd tf)) fs)"
  using assms
proof (induction fs arbitrary: st)
  case Nil
  then show ?case by (simp add: run_Nil List.map_filter_simps)
next
  case (Cons tf fs)
  let ?st' = "step core cfg acct (WsMessage (fst tf) (snd tf)) st"
  from Cons.prems have f0: "frame_s (snd tf) = 0" by simp
  from Cons.prems have st': "?st' = onMessage core cfg acct (fst tf) (snd tf) st" by simp
  have "phase ?st' = OnSocket" "ws ?st' = Some OPEN"
    using Cons.prems f0 by (simp_all add: event_frame)
  with Cons.IH [of ?st'] Cons.prems
  have "sn (run core cfg acct (map (\<lambda>tf. WsMessage (fst tf) (snd tf)) fs) ?st')
           = last (sn ?st' # List.map_filter (\<lambda>tf. frame_sn (snd tf)) fs)" by simp
  moreover have "sn ?st' = (case frame_sn (snd tf) of None \<Rightarrow> sn st | Some k \<Rightarrow> k)"
    using st' f0 by (simp add: event_frame)
  ultimately show ?case
    by (simp add: run_Cons List.map_filter_simps split: option.splits)
qed

text \<open>Every step keeps the session within \<open>session_ok\<close>.\<close>

lemma session_ok_step:
  assumes "session_ok st"
  shows "session_ok (step core cfg acct ev st)"
proof (cases ev)
  case (WsMessage now f)
  then show ?thesis using assms
    by (auto simp: session_ok_def handler_defs Let_def forward_frame split: option.splits)
qed (use assms in \<open>auto simp: session_ok_def handler_defs Let_def split: KookApiResponse.splits\<close>)

lemma session_ok_run: "session_ok st \<Longrightarrow> session_ok (run core cfg acct evs st)"
  by (induction evs arbitrary: st) (simp_all add: run_Nil run_Cons session_ok_step)

lemma session_ok_started: "session_ok (connect (newSession bid ab))"
  by (simp add: session_ok_def connect_def newSession_def resolvePromise_def)

lemma session_ok_reachable: "session_ok (run core cfg acct evs (connect (newSession bid ab)))"
  by (rule session_ok_run [OF session_ok_started])

text \<open>Once the signal is aborted and no socket is in charge, nothing is scheduled any more.\<close>

lemma aborted_step:
  assumes "aborted st" and "phase st \<noteq> OnSocket" and "session_ok st"
  shows "aborted (step core cfg acct ev st) \<and> phase (step core cfg acct ev st) \<noteq> OnSocket
         \<and> reconnects (step core cfg acct ev st) = reconnects st"
  using assms
  by (cases ev)
     (auto simp: session_ok_def reconnects_def handler_defs Let_def split: KookApiResponse.splits)

lemma aborted_run:
  assumes "aborted st" and "phase st \<noteq> OnSocket" and "session_ok st"
  shows "reconnects (run core cfg acct evs st) = reconnects st"
  using assms
proof (induction evs arbitrary: st)
  case Nil
  then show ?case by (simp add: run_Nil)
next
  case (Cons ev evs)
  from aborted_step [OF Cons.prems] session_ok_step [OF Cons.prems(3)]
  show ?case using Cons.IH [of "step core cfg acct ev st"] by (simp add: run_Cons)
qed

text \<open>
  Nor is a timer armed any more, and only a ticker that leaked before can still fire.
\<close>

lemma aborted_quiet_step:
  assumes "aborted st" and "phase st \<noteq> OnSocket" and "session_ok st"
  shows "leaked (step core cfg acct ev st) = leaked st"
    and "leaked st = 0 \<Longrightarrow> pings (step core cfg acct ev st) = pings st"
  using assms
  by (cases ev;
      auto simp: session_ok_def pings_def handler_defs Let_def split: KookApiResponse.splits)+

lemma aborted_quiet_run:
  assumes "aborted st" and "phase st \<noteq> OnSocket" and "session_ok st"
  shows "heartbeatTimer (run core cfg acct evs st) = None
         \<and> helloTimer (run core cfg acct evs st) = None
         \<and> leaked (run core cfg acct evs st) = leaked st
         \<and> (leaked st = 0 \<longrightarrow> pings (run core cfg acct evs st) = pings st)"
  using assms
proof (induction evs arbitrary: st)
  case Nil
  then show ?case by (auto simp: run_Nil session_ok_def)
next
  case (Cons ev evs)
  from aborted_step [OF Cons.prems] session_ok_step [OF Cons.prems(3)]
    aborted_quiet_step [OF Cons.prems, of core cfg acct ev]
  show ?case using Cons.IH [of "step core cfg acct ev st"] by (simp add: run_Cons)
qed

lemma abort_step:
  assumes "session_ok st" and "\<not> aborted st"
  shows "aborted (step core cfg acct AbortSignal st)"
    and "phase (step core cfg acct AbortSignal st) \<noteq> OnSocket"
    and "reconnects (step core cfg acct AbortSignal st) = reconnects st"
    and "leaked (step core cfg acct AbortSignal st) = leaked st"
    and "pings (step core cfg acct AbortSignal st) = pings st"
  using assms
  by (auto simp: session_ok_def reconnects_def pings_def handler_defs Let_def)

text \<open>A settled session stays settled, with the same result.\<close>

lemma settled_step:
  assumes "session_ok st" and "phase st = Settled"
  shows "phase (step core cfg acct ev st) = Settled \<and> promise (step core cfg acct ev st) = promise st"
  using assms by (cases ev) (auto simp: session_ok_def heartbeatTick_def onDispatchSettled_def)

lemma settled_run:
  assumes "session_ok st" and "phase st = Settled"
  shows "promise (run core cfg acct evs st) = promise st"
  using assms
proof (induction evs arbitrary: st)
  case Nil
  then show ?case by (simp add: run_Nil)
next
  case (Cons ev evs)
  from settled_step [OF Cons.prems] session_ok_step [OF Cons.prems(1)]
  show ?case using Cons.IH [of "step core cfg acct ev st"] by (simp add: run_Cons)
qed

lemma dispatchToAgent_outcome:
  "fst (dispatchToAgent core cfg acct now event bid hist) \<noteq> GroupNotAllowed"
  "fst (dispatchToAgent core cfg acct now event bid hist) \<noteq> RecordedToHistory"
  by (simp_all add: dispatchToAgent_def Let_def)

lemma checkBotMentioned_None: "checkBotMentioned event None = False"
  by (simp add: checkBotMentioned_def)

text \<open>The bot id is fixed for the life of the session.\<close>

lemma botId_step: "botId (step core cfg acct ev st) = botId st"
  by (cases ev)
     (auto simp: handler_defs Let_def forward_frame split: option.splits KookApiResponse.splits)

text \<open>With a bot id in place, the handler is never given an event of the bot's own.\<close>

lemma handled_step:
  assumes "truthy (botId st)"
  shows "set (handled (step core cfg acct ev st))
           \<subseteq> set (handled st) \<union> {e. author_id e \<noteq> the (botId st)}"
  using assms
  by (cases ev)
     (auto simp: handler_defs Let_def forward_frame split: option.splits KookApiResponse.splits)

lemma handled_run:
  assumes "truthy (botId st)"
  shows "set (handled (run core cfg acct evs st))
           \<subseteq> set (handled st) \<union> {e. author_id e \<noteq> the (botId st)}"
  using assms
proof (induction evs arbitrary: st)
  case Nil
  then show ?case by (simp add: run_Nil)
next
  case (Cons ev evs)
  have b: "botId (step core cfg acct ev st) = botId st" by (rule botId_step)
  with Cons.prems have "truthy (botId (step core cfg acct ev st))" by simp
  from Cons.IH [OF this] handled_step [OF Cons.prems, of core cfg acct ev] b
  show ?case by (auto simp: run_Cons)
qed

text \<open>Without a bot id, mention-gated group messages are never dispatched.\<close>

lemma dispatched_step:
  assumes "botId st = None" and "mentionGated acct ev"
  shows "dispatched (step core cfg acct ev st) = dispatched st"
  using assms
  by (cases ev)
     (auto simp: handler_defs Let_def forward_def handleKookMessage_def checkBotMentioned_None
        split: option.splits KookApiResponse.splits)

lemma dispatched_run:
  assumes "botId st = None" and "\<forall>ev \<in> set evs. mentionGated acct ev"
  shows "dispatched (run core cfg acct evs st) = dispatched st"
  using assms
proof (induction evs arbitrary: st)
  case Nil
  then show ?case by (simp add: run_Nil)
next
  case (Cons ev evs)
  have "botId (step core cfg acct ev st) = None" using Cons.prems(1) by (simp add: botId_step)
  from Cons.IH [OF this] Cons.prems dispatched_step [of st acct ev core cfg]
  show ?case by (simp add: run_Cons)
qed

text \<open>The concrete sessions, written out.\<close>

lemma session_started_eq:
  "session_started bid =
     \<lparr> botId = bid, chatHistories = Map.empty, sn = 0, sessionId = [],
       reconnectAttempt = 0, aborted = False, abortListener = False, ws = None,
       heartbeatTimer = None, helloTimer = None, leaked = 0, resolved = False,
       inflight = [], phase = Fetching,
       promise = Pending, effects = [FetchGateway], handled = [], dispatched = [] \<rparr>"
  by (simp add: fixture_defs handler_defs const_defs)

lemma session_live_eq:
  "session_live bid =
     \<lparr> botId = bid, chatHistories = Map.empty, sn = 0, sessionId = ''sess-1'',
       reconnectAttempt = 0, aborted = False, abortListener = True, ws = Some OPEN,
       heartbeatTimer = Some 30000, helloTimer = None, leaked = 0, resolved = False,
       inflight = [], phase = OnSocket,
       promise = Pending, effects = [FetchGateway, NewWebSocket ''wss://gateway''],
       handled = [], dispatched = [] \<rparr>"
  by (simp add: fixture_defs handler_defs const_defs)

lemma session_live_live: "live (session_live bid)"
  by (simp add: session_live_eq live_def session_ok_def)

lemma session_waiting_eq:
  "session_waiting =
     \<lparr> botId = Some ''b9'', chatHistories = Map.empty, sn = 0, sessionId = [],
       reconnectAttempt = 1, aborted = False, abortListener = False, ws = Some CLOSING,
       heartbeatTimer = None, helloTimer = None, leaked = 0, resolved = True,
       inflight = [], phase = Backoff,
       promise = Pending,
       effects = [FetchGateway, NewWebSocket ''wss://gateway'', Sleep 2000],
       handled = [], dispatched = [] \<rparr>"
  by (simp add: session_waiting_def session_started_eq run_def gateway_ok_def
      handler_defs const_defs)

lemma session_after_two:
  "session_after_timeouts two =
     \<lparr> botId = Some ''b9'', chatHistories = Map.empty, sn = 0, sessionId = [],
       reconnectAttempt = 2, aborted = False, abortListener = True, ws = Some CONNECTING,
       heartbeatTimer = None, helloTimer = Some 6000, leaked = 0, resolved = False,
       inflight = [], phase = OnSocket,
       promise = Pending,
       effects = [FetchGateway, NewWebSocket ''wss://gateway'', Sleep 2000,
                  FetchGateway, NewWebSocket ''wss://gateway'', Sleep 4000,
                  FetchGateway, NewWebSocket ''wss://gateway''],
       handled = [], dispatched = [] \<rparr>"
  by (simp add: session_after_timeouts_def two_def session_started_eq run_def gateway_ok_def
      handler_defs const_defs)

lemma session_after_five:
  "session_after_timeouts five =
     \<lparr> botId = Some ''b9'', chatHistories = Map.empty, sn = 0, sessionId = [],
       reconnectAttempt = 5, aborted = False, abortListener = True, ws = Some CONNECTING,
       heartbeatTimer = None, helloTimer = Some 6000, leaked = 0, resolved = False,
       inflight = [], phase = OnSocket,
       promise = Pending,
       effects = [FetchGateway, NewWebSocket ''wss://gateway'', Sleep 2000,
                  FetchGateway, NewWebSocket ''wss://gateway'', Sleep 4000,
                  FetchGateway, NewWebSocket ''wss://gateway'', Sleep 8000,
                  FetchGateway, NewWebSocket ''wss://gateway'', Sleep 16000,
                  FetchGateway, NewWebSocket ''wss://gateway'', Sleep 32000,
                  FetchGateway, NewWebSocket ''wss://gateway''],
       handled = [], dispatched = [] \<rparr>"
  by (simp add: session_after_timeouts_def five_def session_started_eq run_def gateway_ok_def
      handler_defs const_defs)


subsection \<open>Sequence numbers\<close>

text \<open>
  C1 (amended). While a socket is open the stored sequence number \<open>sn\<close> follows the
  frames: an Event frame that carries a number stores that number, whatever was stored
  before, and one that carries none leaves \<open>sn\<close> as it is. After a run of Event frames
  \<open>sn\<close> is therefore the number of the last frame that carried one; it is
  non-decreasing over the run only as far as the numbers received are. A Reconnect
  frame resets \<open>sn\<close> to 0, and a new session starts from 0.
\<close>

theorem sequence_follows_frames:
  assumes "phase st = OnSocket" and "ws st = Some OPEN"
  shows "((\<forall>tf \<in> set fs. frame_s (snd tf) = 0) \<longrightarrow>
            sn (run core cfg acct (map (\<lambda>tf. WsMessage (fst tf) (snd tf)) fs) st)
              = last (sn st # List.map_filter (\<lambda>tf. frame_sn (snd tf)) fs))
       \<and> (frame_s f = 0 \<longrightarrow>
            sn (step core cfg acct (WsMessage now f) st)
              = (case frame_sn f of None \<Rightarrow> sn st | Some k \<Rightarrow> k))
       \<and> (frame_s f = 5 \<longrightarrow> sn (step core cfg acct (WsMessage now f) st) = 0)
       \<and> sn (newSession bid ab) = 0"
proof -
  have "frame_s f = 5 \<Longrightarrow> sn (onMessage core cfg acct now f st) = 0"
    by (simp add: handler_defs Let_def)
  then show ?thesis
    using assms run_event_frames [OF assms, of fs core cfg acct]
    by (simp add: event_frame newSession_def)
qed

theorem sequence_follows_frames_witness:
  "sn (run core_ok cfg_plain acct_open
         [WsMessage 0 (frame_of 0 (Some 5) ev_plain), WsMessage 1 (frame_of 0 None ev_plain),
          WsMessage 2 (frame_of 0 (Some 7) ev_plain)] (session_live (Some ''b9''))) = 7
   \<and> sn (step core_ok cfg_plain acct_open (WsMessage 3 (frame_of 0 (Some 5) ev_plain))
           (session_live (Some ''b9''))) = 5
   \<and> sn (step core_ok cfg_plain acct_open (WsMessage 3 (frame_of 5 None ev_plain))
           (session_live (Some ''b9''))) = 0
   \<and> sn (newSession (Some ''b9'') False) = 0"
  using sequence_follows_frames [of "session_live (Some ''b9'')"
      "[(0, frame_of 0 (Some 5) ev_plain), (1, frame_of 0 None ev_plain),
        (2, frame_of 0 (Some 7) ev_plain)]"
      core_ok cfg_plain acct_open "frame_of 5 None ev_plain" 3 "Some ''b9''" False]
    sequence_follows_frames [of "session_live (Some ''b9'')" "[]"
      core_ok cfg_plain acct_open "frame_of 0 (Some 5) ev_plain" 3 "Some ''b9''" False]
  by (simp add: session_live_eq frame_of_def List.map_filter_simps)

text \<open>
  The sequence number can decrease: an Event frame numbered 5 followed by one
  numbered 3 leaves 3 stored.
\<close>

theorem sequence_not_monotonic:
  "sn (run core_ok cfg_plain acct_open
         [WsMessage 0 (frame_of 0 (Some 5) ev_plain)] (session_live (Some ''b9''))) = 5
   \<and> sn (run core_ok cfg_plain acct_open
         [WsMessage 0 (frame_of 0 (Some 5) ev_plain), WsMessage 1 (frame_of 0 (Some 3) ev_plain)]
         (session_live (Some ''b9''))) = 3"
  using run_event_frames [of "session_live (Some ''b9'')"
      "[(0, frame_of 0 (Some 5) ev_plain)]" core_ok cfg_plain acct_open]
    run_event_frames [of "session_live (Some ''b9'')"
      "[(0, frame_of 0 (Some 5) ev_plain), (1, frame_of 0 (Some 3) ev_plain)]"
      core_ok cfg_plain acct_open]
  by (simp add: session_live_eq frame_of_def List.map_filter_simps)

subsection \<open>The pending history buffer\<close>

text \<open>What recording does to the buffer of the channel, and to the other channels.\<close>

lemma record_buffer:
  "bufferOf (recordPendingHistoryEntryIfEnabled h key limit entry) key
     = drop (Suc (length (bufferOf h key)) - limit) (bufferOf h key @ [entry])"
  by (simp add: recordPendingHistoryEntryIfEnabled_def bufferOf_def Let_def)

lemma record_last:
  assumes "0 < limit"
  shows "bufferOf (recordPendingHistoryEntryIfEnabled h key limit entry) key \<noteq> []"
    and "last (bufferOf (recordPendingHistoryEntryIfEnabled h key limit entry) key) = entry"
  using assms by (simp_all add: record_buffer)

lemma record_none: "bufferOf (recordPendingHistoryEntryIfEnabled h key 0 entry) key = []"
  by (simp add: record_buffer)

lemma record_length:
  "length (bufferOf (recordPendingHistoryEntryIfEnabled h key limit entry) key) \<le> limit"
  by (simp add: record_buffer)

lemma record_other:
  "k \<noteq> key \<Longrightarrow> recordPendingHistoryEntryIfEnabled h key limit entry k = h k"
  by (simp add: recordPendingHistoryEntryIfEnabled_def Let_def)

text \<open>
  C2 (amended). Let a group message pass the group gate in a channel that is not
  disabled, the session's history map being \<open>h\<close>. If a mention is required and the bot
  is not mentioned, the call ends without a dispatch, and the message has been appended
  to the channel's pending history buffer, of which the newest entries are kept up to
  the history limit: under a limit above 0 the message is the last entry of the buffer,
  under the limit 0 the buffer is empty. Otherwise, for a channel whose id is not the
  empty string, the message is dispatched with the formatted entries of the channel's
  buffer, in their order, ahead of its own envelope, and the map is left as it is
  while the dispatch is awaited. When the dispatch returns, the channel's buffer is
  emptied in the map as it stands by then (\<open>hcur\<close>, which may hold entries recorded in
  the meantime); when the dispatch throws, that map is left unchanged.
\<close>

theorem pending_history:
  assumes "channel_type event = GROUP"
    and "isGroupAllowed (groupPolicyOf (config acct)) (groupAllowFromOf (config acct))
           (orEmpty (guild_id (extra event))) (target_id event)"
    and "Option.bind (groupConfigOf (config acct) (target_id event) (guild_id (extra event)))
           g_enabled \<noteq> Some False"
  shows "(requireMentionOf (config acct) (target_id event) (guild_id (extra event))
            \<and> \<not> checkBotMentioned event bid \<longrightarrow>
          (let recorded = recordPendingHistoryEntryIfEnabled h (target_id event)
                            (historyLimitOf core cfg) (historyEntryOf core now event bid)
           in handleKookMessage core cfg acct now event bid (Some h)
                = (RecordedToHistory, Some recorded)
              \<and> bufferOf recorded (target_id event)
                  = drop (Suc (length (bufferOf h (target_id event))) - historyLimitOf core cfg)
                      (bufferOf h (target_id event) @ [historyEntryOf core now event bid])
              \<and> (0 < historyLimitOf core cfg \<longrightarrow>
                   bufferOf recorded (target_id event) \<noteq> []
                   \<and> last (bufferOf recorded (target_id event))
                       = historyEntryOf core now event bid)
              \<and> (historyLimitOf core cfg = 0 \<longrightarrow> bufferOf recorded (target_id event) = [])
              \<and> length (bufferOf recorded (target_id event)) \<le> historyLimitOf core cfg
              \<and> (\<forall>k. k \<noteq> target_id event \<longrightarrow> recorded k = h k)))
       \<and> (\<not> (requireMentionOf (config acct) (target_id event) (guild_id (extra event))
               \<and> \<not> checkBotMentioned event bid) \<and> target_id event \<noteq> [] \<longrightarrow>
          handleKookMessage core cfg acct now event bid (Some h)
            = (Dispatching
                 (finalizeInboundContext core (contextOf core acct now event bid
                    (concat (map (\<lambda>entry. formatEntryOf core (target_id event) entry @ [CHR 0x0A])
                               (bufferOf h (target_id event)))
                     @ envelopeOf core now event bid))),
               Some h)
          \<and> dispatchSettled core cfg event (Inr res) (Some hcur) = Some (hcur(target_id event \<mapsto> []))
          \<and> dispatchSettled core cfg event (Inl err) (Some hcur) = Some hcur)"
proof -
  have a: "requireMentionOf (config acct) (target_id event) (guild_id (extra event))
            \<and> \<not> checkBotMentioned event bid \<Longrightarrow>
        handleKookMessage core cfg acct now event bid (Some h)
          = (RecordedToHistory,
             Some (recordPendingHistoryEntryIfEnabled h (target_id event)
                     (historyLimitOf core cfg) (historyEntryOf core now event bid)))"
    using assms by (simp add: handleKookMessage_def Let_def)
  have b: "\<not> (requireMentionOf (config acct) (target_id event) (guild_id (extra event))
               \<and> \<not> checkBotMentioned event bid) \<Longrightarrow> target_id event \<noteq> [] \<Longrightarrow>
        handleKookMessage core cfg acct now event bid (Some h)
          = (Dispatching
               (finalizeInboundContext core (contextOf core acct now event bid
                  (concat (map (\<lambda>entry. formatEntryOf core (target_id event) entry @ [CHR 0x0A])
                             (bufferOf h (target_id event)))
                   @ envelopeOf core now event bid))),
             Some h)"
    using assms
    by (auto simp: handleKookMessage_def dispatchToAgent_def usesHistory_def
        buildPendingHistoryContextFromMap_def Let_def)
  have c: "target_id event \<noteq> [] \<Longrightarrow>
        dispatchSettled core cfg event (Inr res) (Some hcur) = Some (hcur(target_id event \<mapsto> []))"
    using assms(1)
    by (simp add: dispatchSettled_def usesHistory_def clearHistoryEntriesIfEnabled_def)
  have d: "dispatchSettled core cfg event (Inl err) (Some hcur) = Some hcur"
    by (simp add: dispatchSettled_def)
  let ?recorded = "recordPendingHistoryEntryIfEnabled h (target_id event)
                     (historyLimitOf core cfg) (historyEntryOf core now event bid)"
  have e: "0 < historyLimitOf core cfg \<Longrightarrow>
             bufferOf ?recorded (target_id event) \<noteq> []
             \<and> last (bufferOf ?recorded (target_id event)) = historyEntryOf core now event bid"
    by (simp add: record_last)
  have f: "historyLimitOf core cfg = 0 \<Longrightarrow> bufferOf ?recorded (target_id event) = []"
    using record_none [of h "target_id event" "historyEntryOf core now event bid"] by simp
  have g: "\<forall>k. k \<noteq> target_id event \<longrightarrow> ?recorded k = h k"
    by (simp add: record_other)
  show ?thesis
    unfolding Let_def
    using a b c d e f g record_length [of h "target_id event" "historyLimitOf core cfg"
        "historyEntryOf core now event bid"]
      record_buffer [of h "target_id event" "historyLimitOf core cfg"
        "historyEntryOf core now event bid"]
    by blast
qed

theorem pending_history_witness:
  "handleKookMessage core_ok cfg_plain acct_open 9 ev_plain (Some ''b9'') (Some Map.empty)
     = (RecordedToHistory,
        Some [''c1'' \<mapsto> [\<lparr> sender = ''u7'', body = ''u7: hello'', timestamp = 9,
                                messageId = ''m1'' \<rparr>]])
   \<and> fst (handleKookMessage core_ok cfg_plain acct_open 9 ev_plain (Some ''b9'') (Some hist_c1))
       = RecordedToHistory
   \<and> bufferOf (the (snd (handleKookMessage core_ok cfg_plain acct_open 9 ev_plain (Some ''b9'')
                          (Some hist_c1)))) ''c1''
       = [entry_old, \<lparr> sender = ''u7'', body = ''u7: hello'', timestamp = 9, messageId = ''m1'' \<rparr>]
   \<and> bufferOf (the (snd (handleKookMessage core_ok cfg_short acct_open 9 ev_plain (Some ''b9'')
                          (Some [''c1'' \<mapsto> [entry_old, entry_old]])))) ''c1''
       = [entry_old, \<lparr> sender = ''u7'', body = ''u7: hello'', timestamp = 9, messageId = ''m1'' \<rparr>]
   \<and> map_option Body (dispatchedContext (fst (handleKookMessage core_ok cfg_plain acct_open 9
                          ev_mention (Some ''b9'') (Some hist_c1))))
       = Some (''[c1:u3] u3: earlier'' @ [CHR 0x0A] @ ''[c1:u7] u7: hello'')
   \<and> snd (handleKookMessage core_ok cfg_plain acct_open 9 ev_mention (Some ''b9'') (Some hist_c1))
       = Some hist_c1
   \<and> dispatchSettled core_ok cfg_plain ev_mention (Inr \<lparr> queuedFinal = True, counts_final = 1 \<rparr>)
         (Some hist_c1) = Some [''c1'' \<mapsto> []]
   \<and> dispatchSettled core_ok cfg_plain ev_mention (Inl ''agent failed'') (Some hist_c1)
       = Some hist_c1"
  using pending_history [where event = ev_plain and acct = acct_open and bid = "Some ''b9''"
      and core = core_ok and cfg = cfg_plain and now = 9 and h = Map.empty]
    pending_history [where event = ev_plain and acct = acct_open and bid = "Some ''b9''"
      and core = core_ok and cfg = cfg_plain and now = 9 and h = hist_c1]
    pending_history [where event = ev_plain and acct = acct_open and bid = "Some ''b9''"
      and core = core_ok and cfg = cfg_short and now = 9
      and h = "[''c1'' \<mapsto> [entry_old, entry_old]]"]
    pending_history [where event = ev_mention and acct = acct_open and bid = "Some ''b9''"
      and core = core_ok and cfg = cfg_plain and now = 9 and h = hist_c1 and hcur = hist_c1
      and res = "\<lparr> queuedFinal = True, counts_final = 1 \<rparr>" and err = "''agent failed''"]
  by (simp add: bot_defs input_defs Let_def)

text \<open>
  In a live session the buffer is shared by the calls of the handler: a message that
  is recorded while a dispatch is awaited is in the buffer when the dispatch returns,
  and is cleared with the entries that were dispatched; when the dispatch throws, the
  buffer keeps all of them.
\<close>

lemma recorded_while_dispatching:
  "map Body (dispatched (run core_ok cfg_plain acct_open
       [WsMessage 5 (frame_of 0 (Some 1) ev_plain),
        WsMessage 6 (frame_of 0 (Some 2) ev_mention),
        WsMessage 7 (frame_of 0 (Some 3) ev_plain)] (session_live (Some ''b9''))))
     = [''[c1:u7] u7: hello'' @ [CHR 0x0A] @ ''[c1:u7] u7: hello'']"
  "map timestamp (bufferOf (chatHistories (run core_ok cfg_plain acct_open
       [WsMessage 5 (frame_of 0 (Some 1) ev_plain),
        WsMessage 6 (frame_of 0 (Some 2) ev_mention),
        WsMessage 7 (frame_of 0 (Some 3) ev_plain)] (session_live (Some ''b9'')))) ''c1'')
     = [5, 7]"
  "bufferOf (chatHistories (run core_ok cfg_plain acct_open
       [WsMessage 5 (frame_of 0 (Some 1) ev_plain),
        WsMessage 6 (frame_of 0 (Some 2) ev_mention),
        WsMessage 7 (frame_of 0 (Some 3) ev_plain),
        DispatchSettled 0 (Inr \<lparr> queuedFinal = True, counts_final = 1 \<rparr>)]
       (session_live (Some ''b9'')))) ''c1'' = []"
  "map timestamp (bufferOf (chatHistories (run core_ok cfg_plain acct_open
       [WsMessage 5 (frame_of 0 (Some 1) ev_plain),
        WsMessage 6 (frame_of 0 (Some 2) ev_mention),
        WsMessage 7 (frame_of 0 (Some 3) ev_plain),
        DispatchSettled 0 (Inl ''agent failed'')]
       (session_live (Some ''b9'')))) ''c1'') = [5, 7]"
  by (simp_all add: session_live_eq run_def frame_of_def onMessage_def forward_def
      onDispatchSettled_def bot_defs input_defs Let_def)

text \<open>
  With the history limit set to 0 a group message that does not mention the bot ends
  in the record path, and the buffer of its channel holds nothing afterwards; the
  message that mentions the bot next is dispatched with its own envelope alone.
\<close>

theorem history_limit_zero_keeps_nothing:
  "historyLimitOf core_ok cfg_nohistory = 0
   \<and> channel_type ev_plain = GROUP
   \<and> requireMentionOf (config acct_open) (target_id ev_plain) (guild_id (extra ev_plain))
   \<and> \<not> checkBotMentioned ev_plain (Some ''b9'')
   \<and> fst (handleKookMessage core_ok cfg_nohistory acct_open 9 ev_plain (Some ''b9'')
            (Some Map.empty)) = RecordedToHistory
   \<and> bufferOf (the (snd (handleKookMessage core_ok cfg_nohistory acct_open 9 ev_plain
                          (Some ''b9'') (Some Map.empty)))) (target_id ev_plain) = []
   \<and> map_option Body (dispatchedContext (fst (handleKookMessage core_ok cfg_nohistory acct_open 10
        ev_mention (Some ''b9'')
        (snd (handleKookMessage core_ok cfg_nohistory acct_open 9 ev_plain (Some ''b9'')
                (Some Map.empty))))))
       = Some ''[c1:u7] u7: hello''"
  by (simp add: bot_defs input_defs Let_def)

subsection \<open>Admission\<close>

text \<open>
  For a session whose bot id is undefined, or is a string that is not empty, an Event
  frame received on the open socket is passed to the message handler exactly when its
  author id differs from the bot id, its message type is not 255, and its message type
  is 1, 9 or 10; an event of the bot's own is never passed on, nor dispatched.
\<close>

lemma admission:
  assumes "phase st = OnSocket" and "ws st = Some OPEN" and "frame_s f = 0"
    and "botId st \<noteq> Some []"
  shows "handled (step core cfg acct (WsMessage now f) st) =
           (if Some (author_id (event_data (frame_d f))) \<noteq> botId st
               \<and> msg_type (event_data (frame_d f)) \<noteq> 255
               \<and> msg_type (event_data (frame_d f)) \<in> {1, 9, 10}
            then handled st @ [event_data (frame_d f)] else handled st)"
    and "Some (author_id (event_data (frame_d f))) = botId st \<Longrightarrow>
           dispatched (step core cfg acct (WsMessage now f) st) = dispatched st"
proof -
  from assms(4) have t: "truthy (botId st) = (botId st \<noteq> None)"
    by (cases "botId st") simp_all
  show "handled (step core cfg acct (WsMessage now f) st) =
           (if Some (author_id (event_data (frame_d f))) \<noteq> botId st
               \<and> msg_type (event_data (frame_d f)) \<noteq> 255
               \<and> msg_type (event_data (frame_d f)) \<in> {1, 9, 10}
            then handled st @ [event_data (frame_d f)] else handled st)"
    using assms(1-3) t by (cases "botId st") (auto simp: event_frame)
  show "Some (author_id (event_data (frame_d f))) = botId st \<Longrightarrow>
           dispatched (step core cfg acct (WsMessage now f) st) = dispatched st"
    using assms t by (cases "botId st") (auto simp: onMessage_def Let_def split: option.splits)
qed

lemma admission_run:
  assumes "truthy (botId st)" and "e \<in> set (handled (run core cfg acct evs st))"
    and "e \<notin> set (handled st)"
  shows "Some (author_id e) \<noteq> botId st"
  using handled_run [OF assms(1), of core cfg acct evs] assms by (cases "botId st") auto

text \<open>
  C3. The session's bot id is the empty string (the self-identity probe returned
  \<^verbatim>\<open>code: 0\<close> with \<^verbatim>\<open>data.id: ""\<close>), and an Event frame arrives whose event has
  the empty string as author id and message type 1. The author id equals the bot id,
  so the event is the bot's own; the test \<^verbatim>\<open>botId && eventData.author_id === botId\<close>
  is false all the same, and the event is passed to the message handler.
\<close>

theorem empty_bot_id_forwards_own_event:
  "fetchBotId (Response 0 ''ok'' []) = Some []
   \<and> botId (session_live (Some [])) = Some (author_id ev_noauthor)
   \<and> msg_type ev_noauthor = 1
   \<and> handled (session_live (Some [])) = []
   \<and> handled (step core_ok cfg_plain acct_open (WsMessage 0 (frame_of 0 (Some 1) ev_noauthor))
               (session_live (Some []))) = [ev_noauthor]"
  using event_frame(4) [where f = "frame_of 0 (Some 1) ev_noauthor" and core = core_ok
      and cfg = cfg_plain and acct = acct_open and now = 0 and st = "session_live (Some [])"]
  by (simp add: session_live_eq fetchBotId_def frame_of_def ev_noauthor_def ev_plain_def)

subsection \<open>The group policy\<close>

text \<open>
  C4 (amended). For a group event the policy that decides the group gate is the
  \<^verbatim>\<open>groupPolicy\<close> of the resolved account configuration when it has one, and
  \<^verbatim>\<open>allowlist\<close> otherwise. The entries of \<^verbatim>\<open>groups\<close> have no part in it: whatever
  they hold, the gate decides the same (they are read for \<^verbatim>\<open>enabled\<close> and
  \<^verbatim>\<open>requireMention\<close> only).
\<close>

theorem group_policy_resolution:
  assumes "channel_type event = GROUP"
  shows "(fst (handleKookMessage core cfg acct now event bid hist) = GroupNotAllowed)
           = (\<not> isGroupAllowed (case groupPolicy (config acct) of None \<Rightarrow> ''allowlist'' | Some p \<Rightarrow> p)
                   (groupAllowFromOf (config acct)) (orEmpty (guild_id (extra event)))
                   (target_id event))
         \<and> (fst (handleKookMessage core cfg (acct\<lparr> config := (config acct)\<lparr> groups := gs \<rparr> \<rparr>)
                    now event bid hist) = GroupNotAllowed)
           = (fst (handleKookMessage core cfg acct now event bid hist) = GroupNotAllowed)"
  using assms
  by (simp add: handleKookMessage_def Let_def groupPolicyOf_def groupAllowFromOf_def
      dispatchToAgent_outcome)

theorem group_policy_resolution_witness:
  "fst (handleKookMessage core_ok cfg_plain acct_default 9 ev_mention (Some ''b9'') (Some hist_c1))
     = GroupNotAllowed
   \<and> \<not> isGroupAllowed ''allowlist'' [] [] ''c1''
   \<and> fst (handleKookMessage core_ok cfg_plain
            (acct_default\<lparr> config := (config acct_default)\<lparr> groups := groups (config acct_channel_open) \<rparr> \<rparr>)
            9 ev_mention (Some ''b9'') (Some hist_c1))
     = GroupNotAllowed
   \<and> fst (handleKookMessage core_ok cfg_plain acct_open 9 ev_mention (Some ''b9'') (Some hist_c1))
     \<noteq> GroupNotAllowed"
  using group_policy_resolution [where event = ev_mention and core = core_ok and cfg = cfg_plain
      and acct = acct_default and now = 9 and bid = "Some ''b9''" and hist = "Some hist_c1"
      and gs = "groups (config acct_channel_open)"]
    group_policy_resolution [where event = ev_mention and core = core_ok and cfg = cfg_plain
      and acct = acct_open and now = 9 and bid = "Some ''b9''" and hist = "Some hist_c1"
      and gs = "groups (config acct_open)"]
  by (simp add: bot_defs input_defs Let_def)

text \<open>
  A channel entry that carries \<^verbatim>\<open>groupPolicy: "open"\<close> does not override the
  account's \<^verbatim>\<open>disabled\<close>: the chain of the specification would give \<^verbatim>\<open>open\<close> and
  accept, the handler resolves \<^verbatim>\<open>disabled\<close> and rejects.
\<close>

theorem channel_policy_not_consulted:
  "spec_groupPolicy (config acct_channel_open) (target_id ev_mention) (guild_id (extra ev_mention))
     = ''open''
   \<and> groupPolicyOf (config acct_channel_open) = ''disabled''
   \<and> fst (handleKookMessage core_ok cfg_plain acct_channel_open 9 ev_mention (Some ''b9'')
            (Some hist_c1)) = GroupNotAllowed"
  by (simp add: spec_groupPolicy_def bot_defs input_defs Let_def)


subsection \<open>The Hello frame and the attempt count\<close>

text \<open>
  C5 (amended). A Hello frame that arrives on the open socket cancels the hello timer,
  stores the session id of the frame (the stored one is kept when the frame has none),
  and starts the heartbeat ticker of 30000 ms, each tick of which sends a Ping with the
  stored sequence number; the session is then live. The Hello frame leaves the
  reconnect attempt count as it is. The count is reset earlier: the \<^verbatim>\<open>open\<close> event
  of a connecting socket sets it to 0 and leaves both timers as they are, so the count
  is 0 when a Hello frame that follows makes the session live.
\<close>

theorem hello_frame:
  assumes "session_ok st" and "phase st = OnSocket" and "ws st = Some OPEN" and "frame_s f = 1"
  shows "(let st' = step core cfg acct (WsMessage now f) st
          in helloTimer st' = None
             \<and> sessionId st' = (case session_id (frame_d f) of None \<Rightarrow> sessionId st | Some x \<Rightarrow> x)
             \<and> heartbeatTimer st' = Some 30000
             \<and> reconnectAttempt st' = reconnectAttempt st \<and> reconnectAttempt st' = 0
             \<and> live st'
             \<and> effects (step core cfg acct HeartbeatTimerFired st') = effects st @ [SendPing (sn st)])
       \<and> (session_ok c \<and> phase c = OnSocket \<and> ws c = Some CONNECTING \<longrightarrow>
            (let c' = step core cfg acct WsOpen c
             in reconnectAttempt c' = 0 \<and> ws c' = Some OPEN \<and> helloTimer c' = helloTimer c
                \<and> heartbeatTimer c' = heartbeatTimer c \<and> session_ok c' \<and> phase c' = OnSocket
                \<and> reconnectAttempt (step core cfg acct (WsMessage now f) c') = 0))"
  using assms
  by (auto simp: session_ok_def live_def handler_defs const_defs Let_def split: option.splits)

theorem hello_frame_witness:
  "(let c = session_after_timeouts two;
        c' = step core_ok cfg_plain acct_open WsOpen c;
        st' = step core_ok cfg_plain acct_open (WsMessage 4 frame_hello) c'
    in reconnectAttempt c = 2
       \<and> reconnectAttempt c' = 0 \<and> helloTimer c' = Some 6000 \<and> heartbeatTimer c' = None
       \<and> helloTimer st' = None \<and> sessionId st' = ''sess-1'' \<and> heartbeatTimer st' = Some 30000
       \<and> reconnectAttempt st' = 0 \<and> live st'
       \<and> effects (step core_ok cfg_plain acct_open HeartbeatTimerFired st') = effects c @ [SendPing 0])"
  using hello_frame [where st = "step core_ok cfg_plain acct_open WsOpen (session_after_timeouts two)"
      and c = "session_after_timeouts two" and f = frame_hello and core = core_ok
      and cfg = cfg_plain and acct = acct_open and now = 4]
  by (simp add: session_after_two session_ok_def live_def frame_hello_def Let_def
      handler_defs const_defs)

text \<open>
  After two hello timeouts the attempt count is 2. When the third socket opens the
  count is 0 although no Hello has arrived: the hello timer is still armed and no
  heartbeat runs. If this hello timer fires too, the next wait is again that of a first
  attempt, 2000 ms.
\<close>

theorem attempt_reset_before_live:
  "reconnectAttempt (session_after_timeouts two) = 2
   \<and> reconnectAttempt (step core_ok cfg_plain acct_open WsOpen (session_after_timeouts two)) = 0
   \<and> \<not> live (step core_ok cfg_plain acct_open WsOpen (session_after_timeouts two))
   \<and> helloTimer (step core_ok cfg_plain acct_open WsOpen (session_after_timeouts two)) = Some 6000
   \<and> heartbeatTimer (step core_ok cfg_plain acct_open WsOpen (session_after_timeouts two)) = None
   \<and> effects (run core_ok cfg_plain acct_open [WsOpen, HelloTimerFired] (session_after_timeouts two))
       = effects (session_after_timeouts two) @ [Sleep 2000]"
  by (simp add: session_after_two run_def live_def handler_defs const_defs)

subsection \<open>The group gate\<close>

text \<open>
  C6. The group gate \<^verbatim>\<open>isGroupAllowed\<close>: policy \<^verbatim>\<open>disabled\<close> rejects whatever the
  allow-list holds, policy \<^verbatim>\<open>open\<close> accepts, and policy \<^verbatim>\<open>allowlist\<close> accepts
  exactly when the string form of some entry of the allow-list equals the guild id or
  the channel id.
\<close>

theorem isGroupAllowed_policy:
  "isGroupAllowed ''disabled'' allow guildId channelId = False
   \<and> isGroupAllowed ''open'' allow guildId channelId = True
   \<and> isGroupAllowed ''allowlist'' allow guildId channelId =
       (\<exists>entry \<in> set allow. String_js entry = guildId \<or> String_js entry = channelId)"
  by (simp add: isGroupAllowed_def list_ex_iff)

theorem isGroupAllowed_policy_witness:
  "isGroupAllowed ''disabled'' [ENum 42, EStr ''c9''] ''42'' ''c1'' = False
   \<and> isGroupAllowed ''open'' [] ''42'' ''c1'' = True
   \<and> isGroupAllowed ''allowlist'' [ENum 42, EStr ''c9''] ''42'' ''c1'' = True
   \<and> isGroupAllowed ''allowlist'' [ENum 42, EStr ''c9''] ''7'' ''c9'' = True
   \<and> isGroupAllowed ''allowlist'' [ENum 42, EStr ''c9''] ''7'' ''c1'' = False"
  using isGroupAllowed_policy [of "[ENum 42, EStr ''c9'']" "''42''" "''c1''"]
    isGroupAllowed_policy [of "[]" "''42''" "''c1''"]
    isGroupAllowed_policy [of "[ENum 42, EStr ''c9'']" "''7''" "''c9''"]
    isGroupAllowed_policy [of "[ENum 42, EStr ''c9'']" "''7''" "''c1''"]
  by (simp add: nat_digits.simps)

subsection \<open>The Reconnect frame\<close>

text \<open>
  C7. When a Reconnect frame (signal 5) arrives in the live state, the session id
  becomes empty and the sequence number 0, both timers are cleared and the socket is
  closed, and a backoff wait is scheduled (the attempt count goes up by one). When the
  wait is over the session requests the gateway endpoint again, and only the reply to
  that request creates the next socket.
\<close>

theorem reconnect_frame:
  assumes "live st" and "frame_s f = 5"
  shows "(let st1 = step core cfg acct (WsMessage now f) st;
              st2 = step core cfg acct BackoffTimerFired st1;
              st3 = step core cfg acct (GatewayReply (Response 0 msg url)) st2
          in sessionId st1 = [] \<and> sn st1 = 0
             \<and> ws st1 = Some CLOSING \<and> heartbeatTimer st1 = None \<and> helloTimer st1 = None
             \<and> phase st1 = Backoff
             \<and> reconnectAttempt st1 = reconnectAttempt st + 1
             \<and> effects st1 = effects st @ [Sleep (min (2000 * 2 ^ reconnectAttempt st) 60000)]
             \<and> phase st2 = Fetching
             \<and> effects st2 = effects st1 @ [FetchGateway]
             \<and> effects st3 = effects st1 @ [FetchGateway, NewWebSocket url]
             \<and> ws st3 = Some CONNECTING \<and> sessionId st3 = [] \<and> sn st3 = 0)"
  using assms
  by (auto simp: session_ok_def live_def handler_defs const_defs Let_def split: option.splits)

theorem reconnect_frame_witness:
  "(let st = run core_ok cfg_plain acct_open [WsMessage 1 (frame_of 0 (Some 12) ev_plain)]
               (session_live (Some ''b9''));
        st1 = step core_ok cfg_plain acct_open (WsMessage 2 (frame_of 5 None ev_plain)) st;
        st2 = step core_ok cfg_plain acct_open BackoffTimerFired st1;
        st3 = step core_ok cfg_plain acct_open (GatewayReply (Response 0 ''ok'' ''wss://next'')) st2
    in sn st = 12 \<and> sessionId st = ''sess-1'' \<and> live st
       \<and> sessionId st1 = [] \<and> sn st1 = 0 \<and> ws st1 = Some CLOSING
       \<and> heartbeatTimer st1 = None \<and> helloTimer st1 = None \<and> phase st1 = Backoff
       \<and> effects st1 = [FetchGateway, NewWebSocket ''wss://gateway'', Sleep 2000]
       \<and> effects st3 = [FetchGateway, NewWebSocket ''wss://gateway'', Sleep 2000,
                         FetchGateway, NewWebSocket ''wss://next''])"
  using reconnect_frame [where st = "run core_ok cfg_plain acct_open
        [WsMessage 1 (frame_of 0 (Some 12) ev_plain)] (session_live (Some ''b9''))"
      and f = "frame_of 5 None ev_plain" and core = core_ok and cfg = cfg_plain
      and acct = acct_open and now = 2 and msg = "''ok''" and url = "''wss://next''"]
  by (simp add: session_live_eq run_def live_def session_ok_def frame_of_def Let_def
      handler_defs const_defs forward_frame ev_plain_def)

subsection \<open>The backoff wait\<close>

text \<open>
  C8. The wait before reconnect attempt \<open>n \<ge> 1\<close> is \<open>min (2000 * 2^(n-1)) 60000\<close>
  milliseconds: \<^verbatim>\<open>scheduleReconnect\<close>, called with \<open>n - 1\<close> attempts counted and the
  signal not aborted, counts attempt \<open>n\<close> and sleeps for that time. For the sixth
  attempt the product is 64000 and the wait 60000.
\<close>

theorem backoff_wait:
  assumes "1 \<le> n" and "\<not> aborted st" and "reconnectAttempt st = n - 1"
  shows "reconnectAttempt (scheduleReconnect st) = n
         \<and> effects (scheduleReconnect st) = effects st @ [Sleep (min (2000 * 2 ^ (n - 1)) 60000)]
         \<and> (n = 6 \<longrightarrow> 2000 * 2 ^ (n - 1) = (64000 :: nat)
               \<and> effects (scheduleReconnect st) = effects st @ [Sleep 60000])"
  using assms by (auto simp: scheduleReconnect_def Let_def const_defs)

theorem backoff_wait_witness:
  "reconnectAttempt (step core_ok cfg_plain acct_open HelloTimerFired (session_after_timeouts five)) = 6
   \<and> effects (step core_ok cfg_plain acct_open HelloTimerFired (session_after_timeouts five))
       = effects (session_after_timeouts five) @ [Sleep 60000]
   \<and> map (\<lambda>n. min (2000 * 2 ^ (n - 1)) 60000) [1, 2, 3, 4, 5, 6, 7 :: nat]
       = [2000, 4000, 8000, 16000, 32000, 60000, 60000 :: nat]"
  using backoff_wait [of 6 "(cleanup (session_after_timeouts five))\<lparr> abortListener := False, resolved := True \<rparr>"]
  by (simp add: session_after_five helloTimeout_def cleanup_def closeSocket_def)


subsection \<open>Cancellation\<close>

text \<open>
  A second Hello frame on a socket leaves the first heartbeat ticker running with no
  variable holding it: the abort clears the ticker that \<open>heartbeatTimer\<close> holds, and
  the other one still fires.
\<close>

lemma second_hello_leaks_ticker:
  "leaked (step core_ok cfg_plain acct_open (WsMessage 1 frame_hello) (session_live (Some ''b9'')))
     = 1"
  "heartbeatTimer (run core_ok cfg_plain acct_open [WsMessage 1 frame_hello, AbortSignal]
     (session_live (Some ''b9''))) = None"
  "tickersArmed (run core_ok cfg_plain acct_open [WsMessage 1 frame_hello, AbortSignal]
     (session_live (Some ''b9'')))"
  "pings (run core_ok cfg_plain acct_open [WsMessage 1 frame_hello, AbortSignal, LeakedTickerFired]
     (session_live (Some ''b9''))) = [SendPing 0]"
  by (simp_all add: session_live_eq run_def frame_hello_def tickersArmed_def pings_def
      handler_defs const_defs Let_def)

text \<open>
  C9 (amended). Let the abort signal fire in a session. While a socket is in charge
  (waiting for Hello or live) the session clears the hello timer and the heartbeat
  ticker it holds, closes the socket and resolves its promise at once, and the promise
  stays resolved. During a backoff wait the promise is resolved when the wait is over,
  and no request is made. While the gateway endpoint is being fetched the outcome
  depends on the reply: on a good reply the socket is created, closed at once, and the
  promise resolved; a reply that threw, or that carries an error code, still rejects
  the promise. A session that has settled keeps its result. In every case no backoff
  wait and no gateway request is issued after the signal, whatever happens next; and
  in a session none of whose sockets was sent Hello twice (no ticker runs unheld),
  neither a hello timer nor a heartbeat ticker is armed after the signal, and no ping
  is sent, whatever happens next.
\<close>

theorem cancellation:
  assumes "session_ok st" and "\<not> aborted st"
  shows "(let st1 = step core cfg acct AbortSignal st in
           (phase st = OnSocket \<longrightarrow>
              promise st1 = Fulfilled \<and> heartbeatTimer st1 = None \<and> helloTimer st1 = None
              \<and> ws st1 = Some CLOSING \<and> promise (run core cfg acct evs st1) = Fulfilled)
         \<and> (phase st = Backoff \<longrightarrow>
              promise st1 = Pending
              \<and> promise (step core cfg acct BackoffTimerFired st1) = Fulfilled
              \<and> effects (step core cfg acct BackoffTimerFired st1) = effects st)
         \<and> (phase st = Fetching \<longrightarrow>
              promise st1 = Pending
              \<and> promise (step core cfg acct (GatewayReply (Response 0 msg url)) st1) = Fulfilled
              \<and> ws (step core cfg acct (GatewayReply (Response 0 msg url)) st1) = Some CLOSING
              \<and> effects (step core cfg acct (GatewayReply (Response 0 msg url)) st1)
                   = effects st @ [NewWebSocket url]
              \<and> promise (step core cfg acct (GatewayReply (Threw err)) st1) = Rejected err
              \<and> (code \<noteq> 0 \<longrightarrow>
                    promise (step core cfg acct (GatewayReply (Response code msg url)) st1)
                      = Rejected (''Failed to get KOOK gateway: ''
                          @ (if msg \<noteq> [] then msg else ''code '' @ String_js (ENum code)))))
         \<and> (phase st = Settled \<longrightarrow> promise (run core cfg acct evs st1) = promise st)
         \<and> reconnects (run core cfg acct evs st1) = reconnects st
         \<and> heartbeatTimer (run core cfg acct evs st1) = None
         \<and> helloTimer (run core cfg acct evs st1) = None
         \<and> leaked (run core cfg acct evs st1) = leaked st
         \<and> (leaked st = 0 \<longrightarrow>
              \<not> tickersArmed (run core cfg acct evs st1)
              \<and> pings (run core cfg acct evs st1) = pings st))"
proof -
  let ?st1 = "step core cfg acct AbortSignal st"
  have ok: "session_ok ?st1" by (rule session_ok_step [OF assms(1)])
  have "reconnects (run core cfg acct evs ?st1) = reconnects ?st1"
    by (rule aborted_run [OF abort_step(1) [OF assms] abort_step(2) [OF assms] ok])
  then have r: "reconnects (run core cfg acct evs ?st1) = reconnects st"
    using abort_step(3) [OF assms] by simp
  have q: "heartbeatTimer (run core cfg acct evs ?st1) = None"
      "helloTimer (run core cfg acct evs ?st1) = None"
      "leaked (run core cfg acct evs ?st1) = leaked st"
      "leaked st = 0 \<Longrightarrow> pings (run core cfg acct evs ?st1) = pings st"
    using aborted_quiet_run [OF abort_step(1) [OF assms] abort_step(2) [OF assms] ok, of core cfg acct evs]
      abort_step(4,5) [OF assms, of core cfg acct]
    by simp_all
  have s: "phase st = OnSocket \<Longrightarrow> promise (run core cfg acct evs ?st1) = Fulfilled"
  proof -
    assume "phase st = OnSocket"
    then have "phase ?st1 = Settled" "promise ?st1 = Fulfilled"
      using assms by (auto simp: session_ok_def handler_defs Let_def)
    then show ?thesis using settled_run [OF ok] by simp
  qed
  have t: "phase st = Settled \<Longrightarrow> promise (run core cfg acct evs ?st1) = promise st"
  proof -
    assume "phase st = Settled"
    then have "phase ?st1 = Settled" "promise ?st1 = promise st"
      using assms by (auto simp: session_ok_def)
    then show ?thesis using settled_run [OF ok] by simp
  qed
  show ?thesis
    unfolding Let_def
    apply (intro conjI impI)
    using assms r s t q
    by (auto simp: session_ok_def tickersArmed_def handler_defs Let_def)
qed

theorem cancellation_witness:
  "(let st1 = step core_ok cfg_plain acct_open AbortSignal (session_live (Some ''b9''))
    in promise st1 = Fulfilled \<and> heartbeatTimer st1 = None \<and> helloTimer st1 = None
       \<and> ws st1 = Some CLOSING
       \<and> promise (run core_ok cfg_plain acct_open [WsClose, BackoffTimerFired] st1) = Fulfilled
       \<and> reconnects (run core_ok cfg_plain acct_open [WsClose, BackoffTimerFired] st1)
           = [FetchGateway]
       \<and> \<not> tickersArmed (run core_ok cfg_plain acct_open [WsClose, BackoffTimerFired] st1)
       \<and> pings (run core_ok cfg_plain acct_open [WsClose, BackoffTimerFired] st1) = [])
   \<and> pings (run core_ok cfg_plain acct_open [HeartbeatTimerFired, AbortSignal, HeartbeatTimerFired,
              LeakedTickerFired] (session_live (Some ''b9''))) = [SendPing 0]
   \<and> (let st1 = step core_ok cfg_plain acct_open AbortSignal session_waiting
      in promise st1 = Pending
         \<and> promise (step core_ok cfg_plain acct_open BackoffTimerFired st1) = Fulfilled
         \<and> effects (step core_ok cfg_plain acct_open BackoffTimerFired st1)
             = [FetchGateway, NewWebSocket ''wss://gateway'', Sleep 2000])
   \<and> (let st1 = step core_ok cfg_plain acct_open AbortSignal (session_started (Some ''b9''))
      in promise st1 = Pending
         \<and> promise (step core_ok cfg_plain acct_open (GatewayReply gateway_ok) st1) = Fulfilled
         \<and> effects (step core_ok cfg_plain acct_open (GatewayReply gateway_ok) st1)
             = [FetchGateway, NewWebSocket ''wss://gateway'']
         \<and> \<not> tickersArmed (step core_ok cfg_plain acct_open (GatewayReply gateway_ok) st1)
         \<and> promise (step core_ok cfg_plain acct_open (GatewayReply (Threw ''network down'')) st1)
             = Rejected ''network down''
         \<and> promise (step core_ok cfg_plain acct_open (GatewayReply (Response 401 ''denied'' [])) st1)
             = Rejected ''Failed to get KOOK gateway: denied'')"
  using cancellation [where st = "session_live (Some ''b9'')" and core = core_ok
      and cfg = cfg_plain and acct = acct_open and evs = "[WsClose, BackoffTimerFired]"]
    cancellation [where st = "step core_ok cfg_plain acct_open HeartbeatTimerFired
                               (session_live (Some ''b9''))" and core = core_ok
      and cfg = cfg_plain and acct = acct_open and evs = "[HeartbeatTimerFired, LeakedTickerFired]"]
    cancellation [where st = session_waiting and core = core_ok
      and cfg = cfg_plain and acct = acct_open and evs = "[]"]
    cancellation [where st = "session_started (Some ''b9'')" and core = core_ok
      and cfg = cfg_plain and acct = acct_open and evs = "[GatewayReply gateway_ok]"
      and msg = "''ok''"
      and url = "''wss://gateway''" and err = "''network down''"]
    cancellation [where st = "session_started (Some ''b9'')" and core = core_ok
      and cfg = cfg_plain and acct = acct_open and evs = "[]" and msg = "''denied''"
      and url = "[]" and code = 401]
  by (simp add: session_live_eq session_waiting_eq session_started_eq session_ok_def
      reconnects_def pings_def tickersArmed_def run_def gateway_ok_def Let_def handler_defs
      const_defs)

text \<open>
  The signal fires while the first gateway request is under way, and the request then
  fails: the promise of the session is rejected with the error of the request.
\<close>

theorem cancelled_fetch_rejects:
  "aborted (step core_ok cfg_plain acct_open AbortSignal (session_started (Some ''b9'')))
   \<and> promise (run core_ok cfg_plain acct_open [AbortSignal, GatewayReply (Threw ''network down'')]
               (session_started (Some ''b9''))) = Rejected ''network down''"
  by (simp add: session_started_eq run_def handler_defs)

subsection \<open>A session without a bot id\<close>

text \<open>
  C10 (amended). When the self-identity probe throws or returns an error code,
  \<^verbatim>\<open>fetchBotId\<close> yields no bot id, the session starts all the same (it requests the
  gateway), and mention detection is false for every event. In such a session, for an
  Event frame with a group message in a channel where \<^verbatim>\<open>requireMention\<close> resolves
  true, nothing is dispatched, and nothing is over any run of events whose Event frames
  are all of this kind. If the message has type 1, 9 or 10, the group gate accepts it
  and the channel is not disabled, it is appended to the channel's pending history
  buffer, of which the newest entries are kept up to the history limit: under a limit
  above 0 the message is the last entry of the buffer afterwards, under the limit 0
  the buffer is empty. Otherwise the histories are left as they are.
\<close>

theorem no_bot_id:
  assumes "phase st = OnSocket" and "ws st = Some OPEN" and "botId st = None"
    and "frame_s f = 0" and "channel_type (event_data (frame_d f)) = GROUP"
    and "requireMentionOf (config acct) (target_id (event_data (frame_d f)))
           (guild_id (extra (event_data (frame_d f))))"
  shows "fetchBotId (Threw err) = None
       \<and> (code \<noteq> 0 \<longrightarrow> fetchBotId (Response code msg uid) = None)
       \<and> (truthy (token acct) \<longrightarrow>
            connectWebSocket acct (Threw err) False = Inr (connect (newSession None False))
            \<and> botId (connect (newSession None False)) = None
            \<and> phase (connect (newSession None False)) = Fetching
            \<and> effects (connect (newSession None False)) = [FetchGateway])
       \<and> checkBotMentioned (event_data (frame_d f)) (botId st) = False
       \<and> dispatched (step core cfg acct (WsMessage now f) st) = dispatched st
       \<and> ((\<forall>ev \<in> set evs. mentionGated acct ev) \<longrightarrow>
            dispatched (run core cfg acct evs st) = dispatched st)
       \<and> (let key = target_id (event_data (frame_d f));
              entry = historyEntryOf core now (event_data (frame_d f)) None;
              after = chatHistories (step core cfg acct (WsMessage now f) st)
          in if msg_type (event_data (frame_d f)) \<in> {1, 9, 10}
               \<and> isGroupAllowed (groupPolicyOf (config acct)) (groupAllowFromOf (config acct))
                    (orEmpty (guild_id (extra (event_data (frame_d f))))) key
               \<and> Option.bind (groupConfigOf (config acct) key
                    (guild_id (extra (event_data (frame_d f))))) g_enabled \<noteq> Some False
             then after = recordPendingHistoryEntryIfEnabled (chatHistories st) key
                            (historyLimitOf core cfg) entry
                  \<and> bufferOf after key
                      = drop (Suc (length (bufferOf (chatHistories st) key)) - historyLimitOf core cfg)
                          (bufferOf (chatHistories st) key @ [entry])
                  \<and> (if 0 < historyLimitOf core cfg
                      then bufferOf after key \<noteq> [] \<and> last (bufferOf after key) = entry
                      else bufferOf after key = [])
             else after = chatHistories st)"
proof -
  let ?ev = "event_data (frame_d f)"
  let ?entry = "historyEntryOf core now ?ev None"
  let ?after = "chatHistories (step core cfg acct (WsMessage now f) st)"
  let ?recorded = "recordPendingHistoryEntryIfEnabled (chatHistories st) (target_id ?ev)
                     (historyLimitOf core cfg) ?entry"
  have a: "(\<forall>ev \<in> set evs. mentionGated acct ev) \<Longrightarrow>
        dispatched (run core cfg acct evs st) = dispatched st"
    using dispatched_run [OF assms(3)] by simp
  have b: "?after =
        (if msg_type ?ev \<in> {1, 9, 10}
            \<and> isGroupAllowed (groupPolicyOf (config acct)) (groupAllowFromOf (config acct))
                 (orEmpty (guild_id (extra ?ev))) (target_id ?ev)
            \<and> Option.bind (groupConfigOf (config acct) (target_id ?ev) (guild_id (extra ?ev)))
                 g_enabled \<noteq> Some False
         then ?recorded else chatHistories st)"
    using assms
    by (auto simp: checkBotMentioned_None onMessage_def forward_def handleKookMessage_def Let_def
        split: option.splits)
  have c: "bufferOf ?recorded (target_id ?ev)
             = drop (Suc (length (bufferOf (chatHistories st) (target_id ?ev))) - historyLimitOf core cfg)
                 (bufferOf (chatHistories st) (target_id ?ev) @ [?entry])"
    by (rule record_buffer)
  have d: "0 < historyLimitOf core cfg \<Longrightarrow>
             bufferOf ?recorded (target_id ?ev) \<noteq> []
             \<and> last (bufferOf ?recorded (target_id ?ev)) = ?entry"
    by (simp add: record_last)
  have e: "\<not> 0 < historyLimitOf core cfg \<Longrightarrow> bufferOf ?recorded (target_id ?ev) = []"
    using record_none [of "chatHistories st" "target_id ?ev" ?entry] by simp
  have g: "fetchBotId (Threw err) = None
       \<and> (code \<noteq> 0 \<longrightarrow> fetchBotId (Response code msg uid) = None)
       \<and> (truthy (token acct) \<longrightarrow>
            connectWebSocket acct (Threw err) False = Inr (connect (newSession None False))
            \<and> botId (connect (newSession None False)) = None
            \<and> phase (connect (newSession None False)) = Fetching
            \<and> effects (connect (newSession None False)) = [FetchGateway])
       \<and> checkBotMentioned (event_data (frame_d f)) (botId st) = False
       \<and> dispatched (step core cfg acct (WsMessage now f) st) = dispatched st"
    using assms
    by (auto simp: fetchBotId_def connectWebSocket_def connect_def newSession_def
        checkBotMentioned_None onMessage_def forward_def handleKookMessage_def Let_def
        split: option.splits)
  show ?thesis
    unfolding Let_def
    using a b c d e g by presburger
qed

theorem no_bot_id_witness:
  "fetchBotId (Threw ''probe failed'') = None
   \<and> fetchBotId (Response 401 ''unauthorized'' ''b9'') = None
   \<and> connectWebSocket acct_open (Threw ''probe failed'') False = Inr (session_started None)
   \<and> (let st = step core_ok cfg_plain acct_open (WsMessage 9 (frame_of 0 (Some 1) ev_mention))
                  (session_live None)
      in dispatched st = []
         \<and> bufferOf (chatHistories st) ''c1''
             = [\<lparr> sender = ''u7'', body = ''u7: hello'', timestamp = 9, messageId = ''m2'' \<rparr>])
   \<and> bufferOf (chatHistories (step core_ok cfg_nohistory acct_open
                 (WsMessage 9 (frame_of 0 (Some 1) ev_mention)) (session_live None))) ''c1'' = []
   \<and> dispatched (run core_ok cfg_plain acct_open
                    [WsMessage 9 (frame_of 0 (Some 1) ev_mention), HeartbeatTimerFired,
                     WsMessage 10 (frame_of 0 (Some 2) ev_plain)] (session_live None)) = []"
  using no_bot_id [where st = "session_live None" and f = "frame_of 0 (Some 1) ev_mention"
      and acct = acct_open and core = core_ok and cfg = cfg_plain and now = 9
      and err = "''probe failed''" and code = 401 and msg = "''unauthorized''" and uid = "''b9''"
      and evs = "[WsMessage 9 (frame_of 0 (Some 1) ev_mention), HeartbeatTimerFired,
                  WsMessage 10 (frame_of 0 (Some 2) ev_plain)]"]
    no_bot_id [where st = "session_live None" and f = "frame_of 0 (Some 1) ev_mention"
      and acct = acct_open and core = core_ok and cfg = cfg_nohistory and now = 9
      and evs = "[]"]
  by (simp add: session_live_eq session_started_def frame_of_def bot_defs input_defs Let_def)

text \<open>
  Under the default configuration (group policy \<^verbatim>\<open>allowlist\<close>, empty allow-list) a
  group message of a session without bot id reaches the handler and is rejected by the
  group gate: although \<^verbatim>\<open>requireMention\<close> resolves true for its channel, nothing is
  recorded for it.
\<close>

theorem rejected_group_message_not_recorded:
  "botId (session_live (fetchBotId (Threw ''probe failed''))) = None
   \<and> channel_type ev_plain = GROUP
   \<and> requireMentionOf (config acct_default) (target_id ev_plain) (guild_id (extra ev_plain))
   \<and> handled (step core_ok cfg_plain acct_default (WsMessage 9 (frame_of 0 (Some 1) ev_plain))
                (session_live None)) = [ev_plain]
   \<and> chatHistories (step core_ok cfg_plain acct_default (WsMessage 9 (frame_of 0 (Some 1) ev_plain))
                      (session_live None)) (target_id ev_plain) = None"
  by (simp add: session_live_eq fetchBotId_def frame_of_def onMessage_def forward_def
      bot_defs input_defs Let_def)


end
